theory Spec2Isabelle
  imports Complex_Main
begin

section \<open>The cart subsystem of the backend\<close>

text \<open>
  The development embeds \<^verbatim>\<open>controllers/cartController.js\<close>, the cart routes of
  \<^verbatim>\<open>routes/cart.js\<close>, the two cart validators of \<^verbatim>\<open>middleware/validators.js\<close>,
  \<^verbatim>\<open>authenticate\<close> and \<^verbatim>\<open>utils/errors.js\<close>.

  Conventions of the embedding.
  \<^item> A handler is a function from the request and the database to a result and the new
    database. A thrown error is \<open>Inl\<close>; the database that comes back with it holds
    whatever was written before the throw.
  \<^item> The database is the Prisma tables the cart code touches, as lists in insertion
    order, the two autoincrement counters, and the list of the Prisma calls issued so far.
  \<^item> Integers (ids, quantities, stock) are \<open>int\<close>. \<open>parseInt\<close> of a route parameter
    is an \<open>int option\<close>, \<open>None\<close> being \<open>NaN\<close> (the parameter is absent or not a number).
  \<^item> A price is a Prisma \<open>Decimal\<close>, an exact decimal, modelled as \<open>rat\<close>. A JavaScript
    number is an IEEE-754 double, modelled as the rational it stands for: every
    operation on numbers rounds its exact result to the nearest double.
\<close>

subsection \<open>utils/errors.js\<close>

datatype error =
    NotFoundError string
  | ValidationError string
  | BadRequestError string
  | UnauthorizedError string
  | TypeError

definition NotFound :: "string \<Rightarrow> error" where
  "NotFound resource = NotFoundError (resource @ '' not found'')"

fun statusCode :: "error \<Rightarrow> nat" where
  "statusCode (NotFoundError m) = 404"
| "statusCode (ValidationError m) = 400"
| "statusCode (BadRequestError m) = 400"
| "statusCode (UnauthorizedError m) = 401"
| "statusCode TypeError = 500"

subsection \<open>Template literals: an integer as a decimal string\<close>

fun show_nat :: "nat \<Rightarrow> string" where
  "show_nat n =
     (if n < 10 then [''0123456789'' ! n]
      else show_nat (n div 10) @ [''0123456789'' ! (n mod 10)])"

declare show_nat.simps [simp del]

definition show_int :: "int \<Rightarrow> string" where
  "show_int i = (if i < 0 then CHR ''-'' # show_nat (nat (- i)) else show_nat (nat i))"

subsection \<open>JavaScript numbers\<close>

text \<open>\<open>bits n\<close> is the length of the binary numeral of a positive \<open>n\<close>, and \<open>ilog2 x\<close> the
  exponent of the power of two at or below a positive \<open>x\<close>.\<close>

function bits :: "int \<Rightarrow> int" where
  "bits n = (if n \<le> 0 then 0 else 1 + bits (n div 2))"
  by pat_completeness auto
termination
  by (relation "measure nat") auto

declare bits.simps [simp del]

definition ilog2 :: "rat \<Rightarrow> int" where
  "ilog2 x = (if 1 \<le> x then bits \<lfloor>x\<rfloor> - 1 else - bits (\<lceil>1 / x\<rceil> - 1))"

definition pow2 :: "int \<Rightarrow> rat" where
  "pow2 e = (if 0 \<le> e then 2 ^ nat e else 1 / 2 ^ nat (- e))"

definition round_even :: "rat \<Rightarrow> int" where
  "round_even y =
     (let f = \<lfloor>y\<rfloor>; r = y - of_int f
      in if r < 1 / 2 then f else if 1 / 2 < r then f + 1 else if even f then f else f + 1)"

text \<open>The double nearest to \<open>x\<close>, ties to the even significand: 53 significant bits, the
  exponent not below that of the subnormals. The model has no infinity: it follows the
  arithmetic below \<open>2^1024\<close>, where prices, quantities and their sums are.\<close>

definition to_double :: "rat \<Rightarrow> rat" where
  "to_double x =
     (if x = 0 then 0
      else
        (let a = \<bar>x\<bar>;
             e = max (ilog2 a - 52) (- 1074);
             m = round_even (a / pow2 e)
         in (if x < 0 then - 1 else 1) * of_int m * pow2 e))"

text \<open>\<open>Number(price)\<close> of a \<open>Decimal\<close>, and \<open>*\<close> and \<open>+\<close> on numbers.\<close>

definition Number :: "rat \<Rightarrow> rat" where
  "Number x = to_double x"

definition js_times :: "rat \<Rightarrow> rat \<Rightarrow> rat" where
  "js_times x y = to_double (x * y)"

definition js_plus :: "rat \<Rightarrow> rat \<Rightarrow> rat" where
  "js_plus x y = to_double (x + y)"

subsection \<open>The tables\<close>

record product =
  p_id :: int
  p_title :: string
  p_price :: rat
  p_thumbnail :: string
  p_stock :: int
  p_isActive :: bool

record user =
  u_id :: int
  u_email :: string
  u_username :: string
  u_role :: string
  u_isActive :: bool

record cart =
  c_id :: int
  c_userId :: int

record cartItem =
  ci_id :: int
  ci_cartId :: int
  ci_productId :: int
  ci_quantity :: int

text \<open>The \<open>include\<close> argument of a cart query; the flag of \<open>ItemsWithProduct\<close> says
  whether the product \<open>select\<close> lists \<open>isActive\<close>.\<close>

datatype relations = NoRelations | Items | ItemsWithProduct bool

datatype query =
    Q_user_findUnique int
  | Q_product_findUnique int
  | Q_cart_findUnique int relations
  | Q_cart_create int relations
  | Q_cartItem_create int int int
  | Q_cartItem_update int "int option"
  | Q_cartItem_delete int
  | Q_cartItem_deleteMany int

record db =
  products :: "product list"
  users :: "user list"
  carts :: "cart list"
  cartItems :: "cartItem list"
  nextCartId :: int
  nextCartItemId :: int
  queries :: "query list"

definition logq :: "query \<Rightarrow> db \<Rightarrow> db" where
  "logq q d = d\<lparr>queries := queries d @ [q]\<rparr>"

subsection \<open>The Prisma calls of the cart code\<close>

text \<open>The product columns a cart query selects. \<open>isActive\<close> is in the \<open>select\<close> of
  \<open>getCart\<close> only, so the field is optional in the snapshot.\<close>

record snapshot =
  s_id :: int
  s_title :: string
  s_price :: rat
  s_thumbnail :: string
  s_stock :: int
  s_isActive :: "bool option"

definition select_product :: "bool \<Rightarrow> product \<Rightarrow> snapshot" where
  "select_product withActive p =
     \<lparr>s_id = p_id p, s_title = p_title p, s_price = p_price p,
      s_thumbnail = p_thumbnail p, s_stock = p_stock p,
      s_isActive = (if withActive then Some (p_isActive p) else None)\<rparr>"

definition lookup_product :: "product list \<Rightarrow> int \<Rightarrow> product option" where
  "lookup_product ps pid = find (\<lambda>p. p_id p = pid) ps"

definition lookup_cart :: "cart list \<Rightarrow> int \<Rightarrow> cart option" where
  "lookup_cart cs uid = find (\<lambda>c. c_userId c = uid) cs"

definition items_of :: "cartItem list \<Rightarrow> int \<Rightarrow> cartItem list" where
  "items_of its cid = filter (\<lambda>i. ci_cartId i = cid) its"

text \<open>The rows of \<open>include: { items: { include: { product: { select } } } }\<close>: each item
  of the cart with its product. \<open>None\<close> is a product that is not in the table.\<close>

definition items_with_product ::
  "product list \<Rightarrow> cartItem list \<Rightarrow> bool \<Rightarrow> int \<Rightarrow> (cartItem \<times> snapshot option) list" where
  "items_with_product ps its withActive cid =
     map (\<lambda>i. (i, map_option (select_product withActive) (lookup_product ps (ci_productId i))))
       (items_of its cid)"

definition user_findUnique :: "int \<Rightarrow> db \<Rightarrow> user option \<times> db" where
  "user_findUnique uid d = (find (\<lambda>u. u_id u = uid) (users d), logq (Q_user_findUnique uid) d)"

definition product_findUnique :: "int \<Rightarrow> db \<Rightarrow> product option \<times> db" where
  "product_findUnique pid d =
     (lookup_product (products d) pid, logq (Q_product_findUnique pid) d)"

definition cart_findUnique :: "int \<Rightarrow> db \<Rightarrow> cart option \<times> db" where
  "cart_findUnique uid d =
     (lookup_cart (carts d) uid, logq (Q_cart_findUnique uid NoRelations) d)"

definition cart_findUnique_items :: "int \<Rightarrow> db \<Rightarrow> (cart \<times> cartItem list) option \<times> db" where
  "cart_findUnique_items uid d =
     (map_option (\<lambda>c. (c, items_of (cartItems d) (c_id c))) (lookup_cart (carts d) uid),
      logq (Q_cart_findUnique uid Items) d)"

definition cart_findUnique_products ::
  "bool \<Rightarrow> int \<Rightarrow> db \<Rightarrow> (cart \<times> (cartItem \<times> snapshot option) list) option \<times> db" where
  "cart_findUnique_products withActive uid d =
     (map_option (\<lambda>c. (c, items_with_product (products d) (cartItems d) withActive (c_id c)))
        (lookup_cart (carts d) uid),
      logq (Q_cart_findUnique uid (ItemsWithProduct withActive)) d)"

definition insert_cart :: "int \<Rightarrow> db \<Rightarrow> cart \<times> db" where
  "insert_cart uid d =
     (let c = \<lparr>c_id = nextCartId d, c_userId = uid\<rparr>
      in (c, d\<lparr>carts := carts d @ [c], nextCartId := nextCartId d + 1\<rparr>))"

definition cart_create_items :: "int \<Rightarrow> db \<Rightarrow> (cart \<times> cartItem list) \<times> db" where
  "cart_create_items uid d =
     (case insert_cart uid d of
        (c, d') \<Rightarrow> ((c, items_of (cartItems d') (c_id c)), logq (Q_cart_create uid Items) d'))"

definition cart_create_products ::
  "bool \<Rightarrow> int \<Rightarrow> db \<Rightarrow> (cart \<times> (cartItem \<times> snapshot option) list) \<times> db" where
  "cart_create_products withActive uid d =
     (case insert_cart uid d of
        (c, d') \<Rightarrow> ((c, items_with_product (products d') (cartItems d') withActive (c_id c)),
                    logq (Q_cart_create uid (ItemsWithProduct withActive)) d'))"

definition cartItem_create :: "int \<Rightarrow> int \<Rightarrow> int \<Rightarrow> db \<Rightarrow> db" where
  "cartItem_create cid pid q d =
     logq (Q_cartItem_create cid pid q)
       (d\<lparr>cartItems := cartItems d @
             [\<lparr>ci_id = nextCartItemId d, ci_cartId = cid, ci_productId = pid, ci_quantity = q\<rparr>],
          nextCartItemId := nextCartItemId d + 1\<rparr>)"

text \<open>\<open>data: { quantity }\<close>: a field that is \<open>undefined\<close> is left as it is by Prisma.\<close>

definition cartItem_update :: "int \<Rightarrow> int option \<Rightarrow> db \<Rightarrow> db" where
  "cartItem_update iid q d =
     logq (Q_cartItem_update iid q)
       (case q of
          None \<Rightarrow> d
        | Some n \<Rightarrow>
            d\<lparr>cartItems :=
                map (\<lambda>i. if ci_id i = iid then i\<lparr>ci_quantity := n\<rparr> else i) (cartItems d)\<rparr>)"

definition cartItem_delete :: "int \<Rightarrow> db \<Rightarrow> db" where
  "cartItem_delete iid d =
     logq (Q_cartItem_delete iid) (d\<lparr>cartItems := filter (\<lambda>i. ci_id i \<noteq> iid) (cartItems d)\<rparr>)"

definition cartItem_deleteMany :: "int \<Rightarrow> db \<Rightarrow> db" where
  "cartItem_deleteMany cid d =
     logq (Q_cartItem_deleteMany cid)
       (d\<lparr>cartItems := filter (\<lambda>i. ci_cartId i \<noteq> cid) (cartItems d)\<rparr>)"

subsection \<open>Requests and responses\<close>

text \<open>What the handlers read of the request: \<open>req.user.userId\<close> (set by
  \<open>authenticate\<close>), \<open>parseInt(req.params.userId)\<close>, \<open>parseInt(req.params.productId)\<close>,
  \<open>req.body.productId\<close> and \<open>req.body.quantity\<close> (\<open>None\<close> is \<open>undefined\<close>).\<close>

record req =
  user_userId :: int
  params_userId :: "int option"
  params_productId :: "int option"
  body_productId :: int
  body_quantity :: "int option"

record viewItem =
  vi_id :: int
  vi_cartId :: int
  vi_productId :: int
  vi_quantity :: int
  vi_product :: snapshot
  vi_subtotal :: rat

record cartView =
  v_id :: "int option"
  v_userId :: "int option"
  v_items :: "viewItem list"
  v_totalItems :: int
  v_totalPrice :: rat

text \<open>The JSON of a cart: the columns of the cart row, spread (\<open>...cart\<close>; a
  \<open>null\<close> row spreads to nothing, \<open>None\<close>), then \<open>items\<close> and the totals.\<close>

record response =
  r_status :: nat
  r_message :: "string option"
  r_cart :: cartView

type_synonym result = "(error + response) \<times> db"

subsection \<open>The view: enriched items and totals\<close>

text \<open>\<open>x.toFixed(2)\<close> takes the integer \<open>n\<close> for which \<open>n / 100\<close> is nearest to the exact
  value of the double \<open>x\<close>, the larger one of two (after taking the sign off), and
  prints it with two decimals; from \<open>1e21\<close> on it prints \<open>x\<close> itself. \<open>parseFloat\<close> reads
  the string back as a double.\<close>

definition toFixed2 :: "rat \<Rightarrow> rat" where
  "toFixed2 x =
     (if 10 ^ 21 \<le> \<bar>x\<bar> then x
      else if x < 0 then - to_double (of_int \<lfloor>- x * 100 + 1 / 2\<rfloor> / 100)
      else to_double (of_int \<lfloor>x * 100 + 1 / 2\<rfloor> / 100))"

text \<open>One step of \<open>items.map((item) => ({...item, product: {...}, subtotal: ...}))\<close>.
  Reading \<open>item.product.price\<close> of a missing product throws a \<open>TypeError\<close>. The
  quantity is an \<open>Int\<close> column, exact as a double.\<close>

definition enriched :: "cartItem \<Rightarrow> snapshot \<Rightarrow> viewItem" where
  "enriched item p =
     \<lparr>vi_id = ci_id item, vi_cartId = ci_cartId item, vi_productId = ci_productId item,
      vi_quantity = ci_quantity item,
      vi_product = p\<lparr>s_price := Number (s_price p)\<rparr>,
      vi_subtotal = js_times (Number (s_price p)) (of_int (ci_quantity item))\<rparr>"

fun enrichItem :: "cartItem \<times> snapshot option \<Rightarrow> error + viewItem" where
  "enrichItem (item, None) = Inl TypeError"
| "enrichItem (item, Some p) = Inr (enriched item p)"

fun enrichItems :: "(cartItem \<times> snapshot option) list \<Rightarrow> error + viewItem list" where
  "enrichItems [] = Inr []"
| "enrichItems (row # rows) =
     (case enrichItem row of
        Inl e \<Rightarrow> Inl e
      | Inr v \<Rightarrow> (case enrichItems rows of Inl e \<Rightarrow> Inl e | Inr vs \<Rightarrow> Inr (v # vs)))"

text \<open>The block every handler but \<open>clearCart\<close> ends with: enrich, sum with \<open>reduce\<close>,
  answer. The handlers differ in the status, the message and the product \<open>select\<close>.
  The quantities are integers far below \<open>2^53\<close>, where the sum of doubles is the sum
  of integers.\<close>

definition cartResponse ::
  "nat \<Rightarrow> string option \<Rightarrow> cart \<times> (cartItem \<times> snapshot option) list \<Rightarrow> error + response" where
  "cartResponse code msg cr =
     (case cr of (c, rows) \<Rightarrow>
        (case enrichItems rows of
           Inl e \<Rightarrow> Inl e
         | Inr enrichedItems \<Rightarrow>
             (let totalItems = foldl (\<lambda>sum item. sum + vi_quantity item) 0 enrichedItems;
                  totalPrice = foldl (\<lambda>sum item. js_plus sum (vi_subtotal item)) 0 enrichedItems
              in Inr \<lparr>r_status = code, r_message = msg,
                      r_cart = \<lparr>v_id = Some (c_id c), v_userId = Some (c_userId c),
                                v_items = enrichedItems,
                                v_totalItems = totalItems, v_totalPrice = toFixed2 totalPrice\<rparr>\<rparr>)))"

text \<open>\<open>const updatedCart = await prisma.cart.findUnique(...)\<close> and the answer built from
  it. \<open>updatedCart.items\<close> of \<open>null\<close> throws.\<close>

definition refetch :: "nat \<Rightarrow> string \<Rightarrow> int \<Rightarrow> db \<Rightarrow> result" where
  "refetch code msg userId d =
     (case cart_findUnique_products False userId d of
        (None, d') \<Rightarrow> (Inl TypeError, d')
      | (Some updatedCart, d') \<Rightarrow> (cartResponse code (Some msg) updatedCart, d'))"

subsection \<open>controllers/cartController.js\<close>

definition getCart :: "req \<Rightarrow> db \<Rightarrow> result" where
  "getCart r d =
     (let userId = user_userId r in
      case cart_findUnique_products True userId d of
        (Some cart, d1) \<Rightarrow> (cartResponse 200 None cart, d1)
      | (None, d1) \<Rightarrow>
          (case cart_create_products True userId d1 of
             (cart, d2) \<Rightarrow> (cartResponse 200 None cart, d2)))"

definition addToCart :: "req \<Rightarrow> db \<Rightarrow> result" where
  "addToCart r d =
     (let userId = user_userId r;
          productId = body_productId r;
          quantity = (case body_quantity r of None \<Rightarrow> 1 | Some q \<Rightarrow> q)
      in
      if userId < 1 then (Inl (ValidationError ''Invalid user ID''), d)
      else
        case product_findUnique productId d of
          (None, d1) \<Rightarrow> (Inl (NotFound ''Product''), d1)
        | (Some product, d1) \<Rightarrow>
            if \<not> p_isActive product then (Inl (BadRequestError ''Product is not available''), d1)
            else if p_stock product < 1 then (Inl (BadRequestError ''Product is out of stock''), d1)
            else if p_stock product < quantity then
              (Inl (BadRequestError (''Only '' @ show_int (p_stock product) @ '' items available'')), d1)
            else
              case (case cart_findUnique_items userId d1 of
                      (Some cart, d2) \<Rightarrow> (cart, d2)
                    | (None, d2) \<Rightarrow> cart_create_items userId d2) of
                ((cart, items), d3) \<Rightarrow>
                  (case find (\<lambda>item. ci_productId item = productId) items of
                     Some existingItem \<Rightarrow>
                       (let newQuantity = ci_quantity existingItem + quantity in
                        if newQuantity > p_stock product then
                          (Inl (BadRequestError
                             (''Cannot add '' @ show_int quantity @ '' more. Only '' @
                              show_int (p_stock product - ci_quantity existingItem) @ '' available'')), d3)
                        else
                          refetch 201 ''Item added to cart'' userId
                            (cartItem_update (ci_id existingItem) (Some newQuantity) d3))
                   | None \<Rightarrow>
                       refetch 201 ''Item added to cart'' userId
                         (cartItem_create (c_id cart) productId quantity d3)))"

definition updateCartItem :: "req \<Rightarrow> db \<Rightarrow> result" where
  "updateCartItem r d =
     (case params_userId r of
        None \<Rightarrow> (Inl (ValidationError ''Invalid user ID''), d)
      | Some userId \<Rightarrow>
          if userId < 1 then (Inl (ValidationError ''Invalid user ID''), d)
          else
            case params_productId r of
              None \<Rightarrow> (Inl (ValidationError ''Invalid product ID''), d)
            | Some productId \<Rightarrow>
                if productId < 1 then (Inl (ValidationError ''Invalid product ID''), d)
                else
                  case cart_findUnique_items userId d of
                    (None, d1) \<Rightarrow> (Inl (NotFound ''Cart''), d1)
                  | (Some (cart, items), d1) \<Rightarrow>
                      (case find (\<lambda>item. ci_productId item = productId) items of
                         None \<Rightarrow> (Inl (NotFound ''Cart item''), d1)
                       | Some cartItem \<Rightarrow>
                           (case product_findUnique productId d1 of
                              (None, d2) \<Rightarrow> (Inl (NotFound ''Product''), d2)
                            | (Some product, d2) \<Rightarrow>
                                (case body_quantity r of
                                   None \<Rightarrow>
                                     refetch 200 ''Cart updated'' userId
                                       (cartItem_update (ci_id cartItem) None d2)
                                 | Some quantity \<Rightarrow>
                                     if quantity > p_stock product then
                                       (Inl (BadRequestError
                                          (''Only '' @ show_int (p_stock product) @ '' items available'')), d2)
                                     else if quantity < 1 then
                                       refetch 200 ''Cart updated'' userId
                                         (cartItem_delete (ci_id cartItem) d2)
                                     else
                                       refetch 200 ''Cart updated'' userId
                                         (cartItem_update (ci_id cartItem) (Some quantity) d2)))))"

definition removeFromCart :: "req \<Rightarrow> db \<Rightarrow> result" where
  "removeFromCart r d =
     (case params_userId r of
        None \<Rightarrow> (Inl (ValidationError ''Invalid user ID''), d)
      | Some userId \<Rightarrow>
          if userId < 1 then (Inl (ValidationError ''Invalid user ID''), d)
          else
            case params_productId r of
              None \<Rightarrow> (Inl (ValidationError ''Invalid product ID''), d)
            | Some productId \<Rightarrow>
                if productId < 1 then (Inl (ValidationError ''Invalid product ID''), d)
                else
                  case cart_findUnique_items userId d of
                    (None, d1) \<Rightarrow> (Inl (NotFound ''Cart''), d1)
                  | (Some (cart, items), d1) \<Rightarrow>
                      (case find (\<lambda>item. ci_productId item = productId) items of
                         None \<Rightarrow> (Inl (NotFound ''Cart item''), d1)
                       | Some cartItem \<Rightarrow>
                           refetch 200 ''Item removed from cart'' userId
                             (cartItem_delete (ci_id cartItem) d1)))"

definition clearCart :: "req \<Rightarrow> db \<Rightarrow> result" where
  "clearCart r d =
     (case params_userId r of
        None \<Rightarrow> (Inl (ValidationError ''Invalid user ID''), d)
      | Some userId \<Rightarrow>
          if userId < 1 then (Inl (ValidationError ''Invalid user ID''), d)
          else
            case cart_findUnique userId d of
              (None, d1) \<Rightarrow> (Inl (NotFound ''Cart''), d1)
            | (Some cart, d1) \<Rightarrow>
                (case cart_findUnique_items userId (cartItem_deleteMany (c_id cart) d1) of
                   (None, d2) \<Rightarrow>
                     (Inr \<lparr>r_status = 200, r_message = Some ''Cart cleared'',
                           r_cart = \<lparr>v_id = None, v_userId = None, v_items = [],
                                     v_totalItems = 0, v_totalPrice = 0\<rparr>\<rparr>, d2)
                 | (Some (emptyCart, items), d2) \<Rightarrow>
                     (Inr \<lparr>r_status = 200, r_message = Some ''Cart cleared'',
                           r_cart = \<lparr>v_id = Some (c_id emptyCart), v_userId = Some (c_userId emptyCart),
                                     v_items = [], v_totalItems = 0, v_totalPrice = 0\<rparr>\<rparr>, d2)))"

subsection \<open>What is not among the sources\<close>

text \<open>A field of the JSON body: absent, \<open>null\<close>, a boolean, a number that is an integer,
  any other number, a string, an array, an object.\<close>

datatype jsval =
    JUndefined
  | JNull
  | JBool bool
  | JInt int
  | JFraction
  | JStr string
  | JArray "jsval list"
  | JObject

text \<open>Three things the cart routes rest on are libraries whose code is not in the
  repository. They are parameters of the model:
  \<^item> \<open>verifyToken\<close> (\<^verbatim>\<open>utils/jwt.js\<close>), giving the message of the error it throws or the
    \<open>userId\<close> of the decoded token;
  \<^item> \<open>isInt_array\<close>, the number of errors express-validator's \<open>isInt\<close> reports for an
    array under given bounds (it looks at the elements; how, depends on its version);
  \<^item> \<open>coerced_addToCart\<close>, what \<open>addToCart\<close> does for a user with a \<open>productId\<close> and a
    \<open>quantity\<close> that passed validation without both being numbers: JavaScript's
    coercions and the argument checks of the Prisma client decide it.\<close>

record libs =
  verifyToken :: "string \<Rightarrow> string + int"
  isInt_array :: "int option \<Rightarrow> int option \<Rightarrow> jsval list \<Rightarrow> nat"
  coerced_addToCart :: "int \<Rightarrow> jsval \<Rightarrow> jsval \<Rightarrow> db \<Rightarrow> result"

subsection \<open>authenticate\<close>

text \<open>The result is \<open>req.user.userId\<close>.\<close>

definition authenticate :: "libs \<Rightarrow> string option \<Rightarrow> db \<Rightarrow> (error + int) \<times> db" where
  "authenticate L authHeader d =
     (case authHeader of
        None \<Rightarrow> (Inl (UnauthorizedError ''No authorization token provided''), d)
      | Some h \<Rightarrow>
          if h = [] then (Inl (UnauthorizedError ''No authorization token provided''), d)
          else if take 7 h \<noteq> ''Bearer '' then
            (Inl (UnauthorizedError ''Invalid authorization format. Use: Bearer <token>''), d)
          else
            (let token = drop 7 h in
             if token = [] then (Inl (UnauthorizedError ''No token provided''), d)
             else
               case verifyToken L token of
                 Inl msg \<Rightarrow> (Inl (UnauthorizedError msg), d)
               | Inr userId \<Rightarrow>
                   (case user_findUnique userId d of
                      (None, d1) \<Rightarrow> (Inl (UnauthorizedError ''User no longer exists''), d1)
                    | (Some user, d1) \<Rightarrow>
                        if \<not> u_isActive user then
                          (Inl (UnauthorizedError ''Account is deactivated''), d1)
                        else (Inr (u_id user), d1))))"

subsection \<open>middleware/validators.js\<close>

text \<open>A string is a numeral when it is an optional sign and one digit or more (leading
  zeroes allowed), the pattern \<open>isInt\<close> tests; \<open>int_numeral\<close> is then its value.\<close>

definition digit :: "char \<Rightarrow> nat" where
  "digit c = length (takeWhile (\<lambda>d. d \<noteq> c) ''0123456789'')"

definition all_digits :: "string \<Rightarrow> bool" where
  "all_digits s = (s \<noteq> [] \<and> list_all (\<lambda>c. c \<in> set ''0123456789'') s)"

definition digits_value :: "string \<Rightarrow> int" where
  "digits_value s = foldl (\<lambda>n c. 10 * n + int (digit c)) 0 s"

definition int_numeral :: "string \<Rightarrow> int option" where
  "int_numeral s =
     (case s of
        [] \<Rightarrow> None
      | c # cs \<Rightarrow>
          if c = CHR ''-'' then (if all_digits cs then Some (- digits_value cs) else None)
          else if c = CHR ''+'' then (if all_digits cs then Some (digits_value cs) else None)
          else if all_digits s then Some (digits_value s) else None)"

definition in_bounds :: "int option \<Rightarrow> int option \<Rightarrow> int \<Rightarrow> bool" where
  "in_bounds lo hi n =
     ((case lo of None \<Rightarrow> True | Some l \<Rightarrow> l \<le> n) \<and> (case hi of None \<Rightarrow> True | Some u \<Rightarrow> n \<le> u))"

text \<open>The number of errors \<open>isInt({min, max})\<close> adds for a field. express-validator turns
  the value into a string and tests the string: an integer number prints as its decimal
  numeral below \<open>1e21\<close> and with an exponent from there on; any other number prints with
  a point or an exponent; an absent field and \<open>null\<close> give the empty string, a boolean
  its name, an object \<open>[object Object]\<close>. A string is tested as it is.\<close>

definition isInt_errors :: "libs \<Rightarrow> int option \<Rightarrow> int option \<Rightarrow> jsval \<Rightarrow> nat" where
  "isInt_errors L lo hi v =
     (case v of
        JInt n \<Rightarrow> if \<bar>n\<bar> < 10 ^ 21 \<and> in_bounds lo hi n then 0 else 1
      | JStr s \<Rightarrow>
          (case int_numeral s of
             None \<Rightarrow> 1
           | Some n \<Rightarrow> if in_bounds lo hi n then 0 else 1)
      | JArray vs \<Rightarrow> isInt_array L lo hi vs
      | _ \<Rightarrow> 1)"

fun join :: "string list \<Rightarrow> string" where
  "join [] = []"
| "join [m] = m"
| "join (m # m' # ms) = m @ '', '' @ join (m' # ms)"

definition validate :: "string list \<Rightarrow> error option" where
  "validate errors = (if errors = [] then None else Some (ValidationError (join errors)))"

definition validateCartItem :: "libs \<Rightarrow> jsval \<Rightarrow> jsval \<Rightarrow> error option" where
  "validateCartItem L productId quantity =
     validate
       (replicate (isInt_errors L (Some 1) None productId)
          ''Product ID must be a positive integer'' @
        replicate (isInt_errors L (Some 1) (Some 100) quantity)
          ''Quantity must be between 1 and 100'')"

definition validateQuantityUpdate :: "libs \<Rightarrow> jsval \<Rightarrow> error option" where
  "validateQuantityUpdate L quantity =
     validate
       (replicate (isInt_errors L (Some 1) (Some 100) quantity)
          ''Quantity must be between 1 and 100'')"

subsection \<open>routes/cart.js\<close>

record http_req =
  h_authorization :: "string option"
  h_productId :: "int option"
  h_body_productId :: jsval
  h_body_quantity :: jsval

datatype route = GET_cart | POST_items | PUT_item | DELETE_item | DELETE_cart

text \<open>The request a handler gets from the router. No path of \<^verbatim>\<open>routes/cart.js\<close> has a
  \<open>:userId\<close> segment, so \<open>req.params.userId\<close> is \<open>undefined\<close> and its \<open>parseInt\<close> is
  \<open>NaN\<close>. \<open>h_productId\<close> is \<open>parseInt\<close> of the \<open>:productId\<close> segment of the two item
  paths. A body field that is not an integer number reaches only handlers that do not
  read it, or that throw before they would.\<close>

definition to_req :: "int \<Rightarrow> route \<Rightarrow> http_req \<Rightarrow> req" where
  "to_req userId rt h =
     \<lparr>user_userId = userId,
      params_userId = None,
      params_productId = (if rt = PUT_item \<or> rt = DELETE_item then h_productId h else None),
      body_productId = (case h_body_productId h of JInt n \<Rightarrow> n | _ \<Rightarrow> 0),
      body_quantity = (case h_body_quantity h of JInt n \<Rightarrow> Some n | _ \<Rightarrow> None)\<rparr>"

fun is_JInt :: "jsval \<Rightarrow> bool" where
  "is_JInt (JInt n) = True"
| "is_JInt v = False"

definition cartRouter :: "libs \<Rightarrow> route \<Rightarrow> http_req \<Rightarrow> db \<Rightarrow> result" where
  "cartRouter L rt h d =
     (case authenticate L (h_authorization h) d of
        (Inl e, d1) \<Rightarrow> (Inl e, d1)
      | (Inr userId, d1) \<Rightarrow>
          (case rt of
             GET_cart \<Rightarrow> getCart (to_req userId rt h) d1
           | POST_items \<Rightarrow>
               (case validateCartItem L (h_body_productId h) (h_body_quantity h) of
                  Some e \<Rightarrow> (Inl e, d1)
                | None \<Rightarrow>
                    if is_JInt (h_body_productId h) \<and> is_JInt (h_body_quantity h) then
                      addToCart (to_req userId rt h) d1
                    else
                      coerced_addToCart L userId (h_body_productId h) (h_body_quantity h) d1)
           | PUT_item \<Rightarrow>
               (case validateQuantityUpdate L (h_body_quantity h) of
                  Some e \<Rightarrow> (Inl e, d1)
                | None \<Rightarrow> updateCartItem (to_req userId rt h) d1)
           | DELETE_item \<Rightarrow> removeFromCart (to_req userId rt h) d1
           | DELETE_cart \<Rightarrow> clearCart (to_req userId rt h) d1))"

subsection \<open>Sequences of calls\<close>

text \<open>The handlers run one after the other; between two calls the product table may
  change (the catalogue is not owned by the cart code).\<close>

datatype call =
    GetCart req
  | AddToCart req
  | UpdateCartItem req
  | RemoveFromCart req
  | ClearCart req

fun handle :: "call \<Rightarrow> db \<Rightarrow> result" where
  "handle (GetCart r) d = getCart r d"
| "handle (AddToCart r) d = addToCart r d"
| "handle (UpdateCartItem r) d = updateCartItem r d"
| "handle (RemoveFromCart r) d = removeFromCart r d"
| "handle (ClearCart r) d = clearCart r d"

datatype event = Call call | SetProducts "product list"

fun step :: "db \<Rightarrow> event \<Rightarrow> db" where
  "step d (Call c) = snd (handle c d)"
| "step d (SetProducts ps) = d\<lparr>products := ps\<rparr>"

definition run :: "db \<Rightarrow> event list \<Rightarrow> db" where
  "run d es = foldl step d es"

definition empty_db :: "product list \<Rightarrow> user list \<Rightarrow> db" where
  "empty_db ps us =
     \<lparr>products = ps, users = us, carts = [], cartItems = [],
      nextCartId = 1, nextCartItemId = 1, queries = []\<rparr>"

subsection \<open>Invariants of the store\<close>

text \<open>No two items of one cart are for the same product.\<close>

definition unique_items :: "cartItem list \<Rightarrow> bool" where
  "unique_items its = distinct (map (\<lambda>i. (ci_cartId i, ci_productId i)) its)"

text \<open>What Prisma's keys and counters give: one cart per owner (\<open>userId\<close> is unique),
  cart ids and item ids are unique, and the ids in use are below the autoincrement
  counters.\<close>

definition store_inv :: "cart list \<Rightarrow> cartItem list \<Rightarrow> int \<Rightarrow> int \<Rightarrow> bool" where
  "store_inv cs its nc ni =
     (distinct (map c_userId cs) \<and> distinct (map c_id cs) \<and>
      distinct (map ci_id its) \<and> unique_items its \<and>
      (\<forall>c \<in> set cs. c_id c < nc) \<and>
      (\<forall>i \<in> set its. ci_id i < ni \<and> ci_cartId i < nc))"

subsection \<open>The stock read at the last write of a quantity\<close>

text \<open>A call writes a quantity when it issues \<open>cartItem.create\<close> or \<open>cartItem.update\<close>
  with a quantity. The calls that can do so say for which owner and product.\<close>

fun is_write :: "query \<Rightarrow> bool" where
  "is_write (Q_cartItem_create cid pid q) = True"
| "is_write (Q_cartItem_update iid (Some q)) = True"
| "is_write _ = False"

fun target :: "call \<Rightarrow> (int \<times> int) option" where
  "target (AddToCart r) = Some (user_userId r, body_productId r)"
| "target (UpdateCartItem r) =
     (case (params_userId r, params_productId r) of
        (Some u, Some p) \<Rightarrow> Some (u, p)
      | _ \<Rightarrow> None)"
| "target _ = None"

text \<open>\<open>track\<close> runs an event and keeps, for each owner and product, the stock the
  product had in the table when a quantity was last written for them.\<close>

type_synonym stock_seen = "int \<times> int \<Rightarrow> int option"

fun track :: "db \<times> stock_seen \<Rightarrow> event \<Rightarrow> db \<times> stock_seen" where
  "track (d, g) (SetProducts ps) = (step d (SetProducts ps), g)"
| "track (d, g) (Call c) =
     (let d' = step d (Call c) in
      (d',
       if list_ex is_write (drop (length (queries d)) (queries d')) then
         (case target c of
            None \<Rightarrow> g
          | Some (u, p) \<Rightarrow>
              (case lookup_product (products d) p of
                 None \<Rightarrow> g
               | Some pr \<Rightarrow> g((u, p) \<mapsto> p_stock pr)))
       else g))"

definition run_tracked :: "db \<Rightarrow> event list \<Rightarrow> db \<times> stock_seen" where
  "run_tracked d es = foldl track (d, Map.empty) es"

definition bounded :: "cart list \<Rightarrow> cartItem list \<Rightarrow> stock_seen \<Rightarrow> bool" where
  "bounded cs its g =
     (\<forall>c \<in> set cs. \<forall>i \<in> set its.
        ci_cartId i = c_id c \<longrightarrow>
        (\<exists>s. g (c_userId c, ci_productId i) = Some s \<and> ci_quantity i \<le> s))"

text \<open>The invariant of a tracked run: the store is well keyed, and every item of every
  cart is within the stock recorded for its owner and product.\<close>

definition tracked_inv :: "db \<times> stock_seen \<Rightarrow> bool" where
  "tracked_inv x = (case x of (d, g) \<Rightarrow>
     store_inv (carts d) (cartItems d) (nextCartId d) (nextCartItemId d) \<and>
     bounded (carts d) (cartItems d) g)"

subsection \<open>The totals of a view\<close>

text \<open>A response is built from the tables \<open>d'\<close> when it is what \<open>cartResponse\<close> makes of a
  cart of \<open>d'\<close>, its items and their products as \<open>d'\<close> has them.\<close>

definition view_built :: "db \<Rightarrow> response \<Rightarrow> bool" where
  "view_built d' resp =
     (\<exists>c \<in> set (carts d'). \<exists>code msg b.
        cartResponse code msg (c, items_with_product (products d') (cartItems d') b (c_id c)) =
          Inr resp)"

text \<open>What the view holds, against the tables \<open>d'\<close>: the items and quantities of one cart
  of \<open>d'\<close>; for each item the price of its product in \<open>d'\<close>, as a double, and the double
  product of that price and the quantity; the sum of the quantities; and the double sum
  of the subtotals, taken from the left, put through \<open>toFixed(2)\<close> once.\<close>

definition totals_ok :: "db \<Rightarrow> response \<Rightarrow> bool" where
  "totals_ok d' resp =
    (v_totalItems (r_cart resp) = sum_list (map vi_quantity (v_items (r_cart resp))) \<and>
     v_totalPrice (r_cart resp) =
       toFixed2 (foldl js_plus 0 (map vi_subtotal (v_items (r_cart resp)))) \<and>
     (\<exists>c \<in> set (carts d'). v_id (r_cart resp) = Some (c_id c) \<and>
        map (\<lambda>v. \<lparr>ci_id = vi_id v, ci_cartId = vi_cartId v, ci_productId = vi_productId v,
                   ci_quantity = vi_quantity v\<rparr>) (v_items (r_cart resp)) =
          items_of (cartItems d') (c_id c)) \<and>
     (\<forall>v \<in> set (v_items (r_cart resp)).
        \<exists>pr. lookup_product (products d') (vi_productId v) = Some pr \<and>
             s_price (vi_product v) = Number (p_price pr) \<and>
             vi_subtotal v = js_times (Number (p_price pr)) (of_int (vi_quantity v))))"

text \<open>The rounding the specification names: to two decimals, half up, on the exact
  decimal sum.\<close>

definition spec_round2 :: "rat \<Rightarrow> rat" where
  "spec_round2 x = of_int \<lfloor>x * 100 + 1 / 2\<rfloor> / 100"

subsection \<open>Kinds of body values\<close>



subsection \<open>Example data\<close>

definition widget :: product where
  "widget = \<lparr>p_id = 1, p_title = ''Widget'', p_price = 10, p_thumbnail = ''widget.png'',
             p_stock = 5, p_isActive = True\<rparr>"

definition gadget :: product where
  "gadget = \<lparr>p_id = 2, p_title = ''Gadget'', p_price = 4, p_thumbnail = ''gadget.png'',
             p_stock = 200, p_isActive = True\<rparr>"

definition alice :: user where
  "alice = \<lparr>u_id = 1, u_email = ''alice@test.com'', u_username = ''alice'',
            u_role = ''USER'', u_isActive = True\<rparr>"

definition bob :: user where
  "bob = \<lparr>u_id = 2, u_email = ''bob@test.com'', u_username = ''bob'',
          u_role = ''USER'', u_isActive = True\<rparr>"

definition shop :: db where
  "shop = empty_db [widget, gadget] [alice, bob]"

text \<open>Alice's cart holds three widgets and sixty gadgets, Bob's one widget.\<close>

definition shop2 :: db where
  "shop2 =
     \<lparr>products = [widget, gadget], users = [alice, bob],
      carts = [\<lparr>c_id = 1, c_userId = 1\<rparr>, \<lparr>c_id = 2, c_userId = 2\<rparr>],
      cartItems =
        [\<lparr>ci_id = 1, ci_cartId = 1, ci_productId = 1, ci_quantity = 3\<rparr>,
         \<lparr>ci_id = 2, ci_cartId = 2, ci_productId = 1, ci_quantity = 1\<rparr>,
         \<lparr>ci_id = 3, ci_cartId = 1, ci_productId = 2, ci_quantity = 60\<rparr>],
      nextCartId = 3, nextCartItemId = 4, queries = []\<rparr>"


text \<open>A stall that sells one thing, priced with three decimals; Alice has one in her
  cart.\<close>

definition trinket :: product where
  "trinket = \<lparr>p_id = 3, p_title = ''Trinket'', p_price = 1005 / 1000,
              p_thumbnail = ''trinket.png'', p_stock = 10, p_isActive = True\<rparr>"

definition stall :: db where
  "stall =
     \<lparr>products = [trinket], users = [alice],
      carts = [\<lparr>c_id = 1, c_userId = 1\<rparr>],
      cartItems = [\<lparr>ci_id = 1, ci_cartId = 1, ci_productId = 3, ci_quantity = 1\<rparr>],
      nextCartId = 2, nextCartItemId = 2, queries = []\<rparr>"

text \<open>The libraries of the examples. The examples send numbers only, so nothing but the
  tokens is ever consulted.\<close>

definition tokens :: libs where
  "tokens =
     \<lparr>verifyToken =
        (\<lambda>t. if t = ''alice-token'' then Inr 1
             else if t = ''bob-token'' then Inr 2
             else Inl ''jwt malformed''),
      isInt_array = (\<lambda>lo hi vs. 1),
      coerced_addToCart = (\<lambda>u p q d. (Inl TypeError, d))\<rparr>"

text \<open>Alice adds three widgets while the stock is 5; the stock drops to 2; she asks for
  one more, then for four in all.\<close>

definition history :: "event list" where
  "history =
     [Call (AddToCart \<lparr>user_userId = 1, params_userId = None, params_productId = None,
                       body_productId = 1, body_quantity = Some 3\<rparr>),
      SetProducts [widget\<lparr>p_stock := 2\<rparr>, gadget],
      Call (AddToCart \<lparr>user_userId = 1, params_userId = None, params_productId = None,
                       body_productId = 1, body_quantity = Some 1\<rparr>),
      Call (UpdateCartItem \<lparr>user_userId = 1, params_userId = Some 1, params_productId = Some 1,
                            body_productId = 1, body_quantity = Some 4\<rparr>)]"

text \<open>A request as a handler sees it when \<open>req.params.userId\<close> is bound to \<open>u\<close>.\<close>

definition request :: "int \<Rightarrow> int option \<Rightarrow> int \<Rightarrow> int option \<Rightarrow> req" where
  "request u pu p q =
     \<lparr>user_userId = u, params_userId = pu, params_productId = Some p,
      body_productId = p, body_quantity = q\<rparr>"

section \<open>Properties\<close>

subsection \<open>The Prisma calls and the handlers, unfolded\<close>

lemmas prisma_defs = logq_def
  user_findUnique_def product_findUnique_def cart_findUnique_def cart_findUnique_items_def
  cart_findUnique_products_def insert_cart_def cart_create_items_def cart_create_products_def
  cartItem_create_def cartItem_update_def cartItem_delete_def cartItem_deleteMany_def

lemma lookup_cart_Some: "lookup_cart cs u = Some c \<Longrightarrow> c_userId c = u \<and> c \<in> set cs"
  by (auto simp: lookup_cart_def find_Some_iff)

lemma items_of_filter_out [simp]: "items_of (filter (\<lambda>i. ci_cartId i \<noteq> cid) its) cid = []"
  by (simp add: items_of_def)

lemma refetch_db:
  "snd (refetch code msg u d) = logq (Q_cart_findUnique u (ItemsWithProduct False)) d"
  by (simp add: refetch_def prisma_defs split: option.splits)

lemma enrichItems_ok:
  "\<forall>row \<in> set rows. snd row \<noteq> None \<Longrightarrow> \<exists>vs. enrichItems rows = Inr vs"
proof (induction rows)
  case Nil
  show ?case by simp
next
  case (Cons row rows)
  then obtain vs where vs: "enrichItems rows = Inr vs" by auto
  from Cons.prems obtain i s where "row = (i, Some s)" by (cases row) auto
  with vs show ?case by simp
qed

lemma cartResponse_ok:
  "\<forall>row \<in> set rows. snd row \<noteq> None \<Longrightarrow> \<exists>resp. cartResponse code msg (c, rows) = Inr resp"
  using enrichItems_ok [of rows] by (auto simp: cartResponse_def Let_def)

lemma cartResponse_message:
  "cartResponse code (Some m) cr =
     map_sum id (\<lambda>resp. resp\<lparr>r_message := Some m\<rparr>) (cartResponse code (Some m') cr)"
  by (auto simp: cartResponse_def Let_def split: sum.splits prod.splits)

lemma authenticate_db:
  "snd (authenticate vt a d) = d \<or> (\<exists>u. snd (authenticate vt a d) = logq (Q_user_findUnique u) d)"
  by (auto simp: authenticate_def Let_def prisma_defs split: option.splits sum.splits)

lemma authenticate_cartItems [simp]: "cartItems (snd (authenticate vt a d)) = cartItems d"
  using authenticate_db [of vt a d] by (auto simp: logq_def)

lemma authenticate_carts [simp]: "carts (snd (authenticate vt a d)) = carts d"
  using authenticate_db [of vt a d] by (auto simp: logq_def)



text \<open>What a call of \<open>addToCart\<close> or \<open>updateCartItem\<close> can do to the item table.\<close>

lemma find_in_items_of:
  "find P (items_of its cid) = Some e \<Longrightarrow> e \<in> set its \<and> ci_cartId e = cid \<and> P e"
  by (auto simp: items_of_def find_Some_iff dest: nth_mem)

lemma addToCart_cartItems:
  assumes "q = (case body_quantity r of None \<Rightarrow> 1 | Some n \<Rightarrow> n)"
  shows "cartItems (snd (addToCart r d)) = cartItems d \<or>
         (\<exists>cid. find (\<lambda>i. ci_productId i = body_productId r) (items_of (cartItems d) cid) = None \<and>
            cartItems (snd (addToCart r d)) = cartItems d @
            [\<lparr>ci_id = nextCartItemId d, ci_cartId = cid, ci_productId = body_productId r,
              ci_quantity = q\<rparr>]) \<or>
         (\<exists>e \<in> set (cartItems d). cartItems (snd (addToCart r d)) =
            map (\<lambda>i. if ci_id i = ci_id e then i\<lparr>ci_quantity := ci_quantity e + q\<rparr> else i)
              (cartItems d))"
  using assms
  by (auto simp: addToCart_def Let_def prisma_defs refetch_db split: option.splits
      dest!: find_in_items_of)

lemma updateCartItem_cartItems:
  "cartItems (snd (updateCartItem r d)) = cartItems d \<or>
   (\<exists>e \<in> set (cartItems d).
      cartItems (snd (updateCartItem r d)) = filter (\<lambda>i. ci_id i \<noteq> ci_id e) (cartItems d) \<or>
      (\<exists>n. body_quantity r = Some n \<and> 1 \<le> n \<and>
        cartItems (snd (updateCartItem r d)) =
          map (\<lambda>i. if ci_id i = ci_id e then i\<lparr>ci_quantity := n\<rparr> else i) (cartItems d)))"
  by (auto simp: updateCartItem_def Let_def prisma_defs refetch_db split: option.splits
      dest!: find_in_items_of)

subsection \<open>addToCart: merging into an existing item\<close>

text \<open>
  C3, as amended. Let the product exist, be active and have stock of at least 1, and let
  \<open>q\<close> be the requested quantity (1 when the body has none). If \<open>q\<close> alone exceeds the
  stock, \<open>addToCart\<close> fails BadRequest with the absolute stock figure (``Only \<open>stock\<close>
  items available''), whether or not the cart already holds the product, and writes
  nothing. Otherwise: if the owner's cart has no item for the product, a new item with
  quantity \<open>q\<close> is appended; if it has one, the new quantity is \<open>existing + q\<close>, and when
  that exceeds the stock the call fails BadRequest reporting the remaining increment
  \<open>stock - existing\<close> (``Cannot add \<open>q\<close> more. Only \<open>stock - existing\<close> available'') and
  writes no item, else the existing item is updated in place.
\<close>

theorem addToCart_merge:
  assumes "1 \<le> user_userId r"
    and "lookup_product (products d) (body_productId r) = Some pr"
    and "p_isActive pr" and "1 \<le> p_stock pr"
    and "q = (case body_quantity r of None \<Rightarrow> 1 | Some n \<Rightarrow> n)"
    and "cid = (case lookup_cart (carts d) (user_userId r) of
                  Some c \<Rightarrow> c_id c | None \<Rightarrow> nextCartId d)"
  shows
    "(p_stock pr < q \<longrightarrow>
        fst (addToCart r d) =
          Inl (BadRequestError (''Only '' @ show_int (p_stock pr) @ '' items available'')) \<and>
        carts (snd (addToCart r d)) = carts d \<and>
        cartItems (snd (addToCart r d)) = cartItems d) \<and>
     (q \<le> p_stock pr \<longrightarrow>
        (find (\<lambda>i. ci_productId i = body_productId r) (items_of (cartItems d) cid) = None \<longrightarrow>
           cartItems (snd (addToCart r d)) = cartItems d @
             [\<lparr>ci_id = nextCartItemId d, ci_cartId = cid, ci_productId = body_productId r,
               ci_quantity = q\<rparr>]) \<and>
        (\<forall>e. find (\<lambda>i. ci_productId i = body_productId r) (items_of (cartItems d) cid) = Some e \<longrightarrow>
           (p_stock pr < ci_quantity e + q \<longrightarrow>
              fst (addToCart r d) =
                Inl (BadRequestError
                  (''Cannot add '' @ show_int q @ '' more. Only '' @
                   show_int (p_stock pr - ci_quantity e) @ '' available'')) \<and>
              cartItems (snd (addToCart r d)) = cartItems d) \<and>
           (ci_quantity e + q \<le> p_stock pr \<longrightarrow>
              cartItems (snd (addToCart r d)) =
                map (\<lambda>i. if ci_id i = ci_id e then i\<lparr>ci_quantity := ci_quantity e + q\<rparr> else i)
                  (cartItems d))))"
  using assms
  by (auto simp: addToCart_def Let_def prisma_defs refetch_db split: option.splits)

text \<open>Stock 5 and three widgets in Alice's cart: adding three more fails and reports the
  two that remain.\<close>

theorem addToCart_merge_witness:
  "(1::int) \<le> user_userId (request 1 None 1 (Some 3)) \<and>
   lookup_product (products shop2) (body_productId (request 1 None 1 (Some 3))) = Some widget \<and>
   p_isActive widget \<and> 1 \<le> p_stock widget \<and>
   find (\<lambda>i. ci_productId i = 1) (items_of (cartItems shop2) 1) =
     Some \<lparr>ci_id = 1, ci_cartId = 1, ci_productId = 1, ci_quantity = 3\<rparr> \<and>
   fst (addToCart (request 1 None 1 (Some 3)) shop2) =
     Inl (BadRequestError ''Cannot add 3 more. Only 2 available'') \<and>
   cartItems (snd (addToCart (request 1 None 1 (Some 3)) shop2)) = cartItems shop2"
proof -
  let ?r = "request 1 None 1 (Some 3)"
  have u: "1 \<le> user_userId ?r" by (simp add: request_def)
  have p: "lookup_product (products shop2) (body_productId ?r) = Some widget"
    by (simp add: request_def shop2_def lookup_product_def widget_def)
  have a: "p_isActive widget" and s: "1 \<le> p_stock widget" by (simp_all add: widget_def)
  have q: "(3::int) = (case body_quantity ?r of None \<Rightarrow> 1 | Some n \<Rightarrow> n)"
    by (simp add: request_def)
  have c: "(1::int) = (case lookup_cart (carts shop2) (user_userId ?r) of
                  Some c \<Rightarrow> c_id c | None \<Rightarrow> nextCartId shop2)"
    by (simp add: request_def shop2_def lookup_cart_def)
  have e: "find (\<lambda>i. ci_productId i = 1) (items_of (cartItems shop2) 1) =
     Some \<lparr>ci_id = 1, ci_cartId = 1, ci_productId = 1, ci_quantity = 3\<rparr>"
    by (simp add: shop2_def items_of_def)
  have b: "body_productId ?r = 1" by (simp add: request_def)
  have sh: "show_int 3 = ''3''" "show_int 2 = ''2''"
    by (simp_all add: show_int_def show_nat.simps)
  from addToCart_merge [OF u p a s q c] e u p a s show ?thesis
    by (simp add: b widget_def sh)
qed

text \<open>The sum can exceed the stock and the absolute figure be reported all the same:
  with three widgets in the cart and stock 5, a request for six (sum 9) is refused by
  the earlier check \<open>product.stock < quantity\<close>, whose message names the stock, 5, and
  not the remaining 2.\<close>

theorem addToCart_absolute_stock:
  "find (\<lambda>i. ci_productId i = 1) (items_of (cartItems shop2) 1) =
     Some \<lparr>ci_id = 1, ci_cartId = 1, ci_productId = 1, ci_quantity = 3\<rparr> \<and>
   p_stock widget = 5 \<and>
   fst (addToCart (request 1 None 1 (Some 6)) shop2) =
     Inl (BadRequestError ''Only 5 items available'')"
  by (simp add: addToCart_def prisma_defs request_def shop2_def lookup_product_def widget_def
      items_of_def show_int_def show_nat.simps)

subsection \<open>updateCartItem below 1 and removeFromCart\<close>

lemma validateQuantityUpdate_below_one:
  "q < 1 \<Longrightarrow> validateQuantityUpdate L (JInt q) =
     Some (ValidationError ''Quantity must be between 1 and 100'')"
  by (simp add: validateQuantityUpdate_def validate_def isInt_errors_def in_bounds_def)

text \<open>
  C4, as amended. The shortcut is a property of the handler, not of the route. For the
  handler: let the owner \<open>u\<close> it computes have a cart with an item for product \<open>p\<close>, let
  every item of that cart have its product in the table, and let \<open>p\<close> have stock of at
  least 0. Then \<open>updateCartItem\<close> with a quantity below 1 deletes the item and answers
  200; the tables it leaves are those \<open>removeFromCart\<close> leaves, and so is the cart in the
  answer (the two answers differ in the message only). On the route
  \<^verbatim>\<open>PUT /items/:productId\<close> the validator \<open>validateQuantityUpdate\<close> runs first and refuses
  a quantity below 1 with a ValidationError; the handler is not called.
\<close>

theorem update_below_one_is_remove:
  assumes "params_userId r = Some u" and "1 \<le> u"
    and "params_productId r = Some p" and "1 \<le> p"
    and "lookup_cart (carts d) u = Some c"
    and "find (\<lambda>i. ci_productId i = p) (items_of (cartItems d) (c_id c)) = Some it"
    and "lookup_product (products d) p = Some pr" and "0 \<le> p_stock pr"
    and "\<forall>i \<in> set (items_of (cartItems d) (c_id c)).
           lookup_product (products d) (ci_productId i) \<noteq> None"
    and "body_quantity r = Some q" and "q < 1"
  shows "cartItems (snd (updateCartItem r d)) = filter (\<lambda>i. ci_id i \<noteq> ci_id it) (cartItems d) \<and>
         cartItems (snd (updateCartItem r d)) = cartItems (snd (removeFromCart r d)) \<and>
         carts (snd (updateCartItem r d)) = carts (snd (removeFromCart r d)) \<and>
         nextCartId (snd (updateCartItem r d)) = nextCartId (snd (removeFromCart r d)) \<and>
         nextCartItemId (snd (updateCartItem r d)) = nextCartItemId (snd (removeFromCart r d)) \<and>
         (\<exists>resp. fst (updateCartItem r d) = Inr resp \<and> r_status resp = 200 \<and>
                 fst (removeFromCart r d) =
                   Inr (resp\<lparr>r_message := Some ''Item removed from cart''\<rparr>)) \<and>
         (\<forall>vt h d0 u' d1.
            h_body_quantity h = JInt q \<and> authenticate vt (h_authorization h) d0 = (Inr u', d1) \<longrightarrow>
            cartRouter vt PUT_item h d0 =
              (Inl (ValidationError ''Quantity must be between 1 and 100''), d1))"
proof -
  let ?rows = "items_with_product (products d)
                 (filter (\<lambda>i. ci_id i \<noteq> ci_id it) (cartItems d)) False (c_id c)"
  have rows: "\<forall>row \<in> set ?rows. snd row \<noteq> None"
    using assms(9) by (auto simp: items_with_product_def items_of_def)
  from cartResponse_ok [OF rows, of 200 "Some ''Cart updated''" c]
  obtain resp where resp: "cartResponse 200 (Some ''Cart updated'') (c, ?rows) = Inr resp"
    by blast
  have resp': "cartResponse 200 (Some ''Item removed from cart'') (c, ?rows) =
                 Inr (resp\<lparr>r_message := Some ''Item removed from cart''\<rparr>)"
    using cartResponse_message
      [of 200 "''Item removed from cart''" "(c, ?rows)" "''Cart updated''"] resp
    by simp
  have st: "r_status resp = 200"
    using resp by (auto simp: cartResponse_def Let_def split: sum.splits)
  have q: "\<not> p_stock pr < q" using assms(8,11) by simp
  have handler: "cartItems (snd (updateCartItem r d)) =
           filter (\<lambda>i. ci_id i \<noteq> ci_id it) (cartItems d) \<and>
         cartItems (snd (updateCartItem r d)) = cartItems (snd (removeFromCart r d)) \<and>
         carts (snd (updateCartItem r d)) = carts (snd (removeFromCart r d)) \<and>
         nextCartId (snd (updateCartItem r d)) = nextCartId (snd (removeFromCart r d)) \<and>
         nextCartItemId (snd (updateCartItem r d)) = nextCartItemId (snd (removeFromCart r d)) \<and>
         (\<exists>resp. fst (updateCartItem r d) = Inr resp \<and> r_status resp = 200 \<and>
                 fst (removeFromCart r d) =
                   Inr (resp\<lparr>r_message := Some ''Item removed from cart''\<rparr>))"
    using assms(1-7,10,11) q resp resp' st
    by (simp add: updateCartItem_def removeFromCart_def prisma_defs refetch_def)
  have route: "\<forall>vt h d0 u' d1.
            h_body_quantity h = JInt q \<and> authenticate vt (h_authorization h) d0 = (Inr u', d1) \<longrightarrow>
            cartRouter vt PUT_item h d0 =
              (Inl (ValidationError ''Quantity must be between 1 and 100''), d1)"
    using assms(11) by (simp add: cartRouter_def validateQuantityUpdate_below_one)
  from handler route show ?thesis by blast
qed

text \<open>Quantity 0 for Alice's widgets, and the removal of the same item.\<close>

theorem update_below_one_is_remove_witness:
  "params_userId (request 1 (Some 1) 1 (Some 0)) = Some 1 \<and>
   params_productId (request 1 (Some 1) 1 (Some 0)) = Some 1 \<and>
   body_quantity (request 1 (Some 1) 1 (Some 0)) = Some 0 \<and> (0::int) < 1 \<and>
   lookup_cart (carts shop2) 1 = Some \<lparr>c_id = 1, c_userId = 1\<rparr> \<and>
   find (\<lambda>i. ci_productId i = 1) (items_of (cartItems shop2) 1) =
     Some \<lparr>ci_id = 1, ci_cartId = 1, ci_productId = 1, ci_quantity = 3\<rparr> \<and>
   lookup_product (products shop2) 1 = Some widget \<and> 0 \<le> p_stock widget \<and>
   cartItems (snd (updateCartItem (request 1 (Some 1) 1 (Some 0)) shop2)) =
     [\<lparr>ci_id = 2, ci_cartId = 2, ci_productId = 1, ci_quantity = 1\<rparr>,
      \<lparr>ci_id = 3, ci_cartId = 1, ci_productId = 2, ci_quantity = 60\<rparr>] \<and>
   cartItems (snd (updateCartItem (request 1 (Some 1) 1 (Some 0)) shop2)) =
     cartItems (snd (removeFromCart (request 1 (Some 1) 1 (Some 0)) shop2))"
proof -
  let ?r = "request 1 (Some 1) 1 (Some 0)"
  let ?it = "\<lparr>ci_id = 1, ci_cartId = 1, ci_productId = 1, ci_quantity = 3\<rparr>"
  have u: "params_userId ?r = Some 1" and p: "params_productId ?r = Some 1"
    and q: "body_quantity ?r = Some 0"
    by (simp_all add: request_def)
  have c: "lookup_cart (carts shop2) 1 = Some \<lparr>c_id = 1, c_userId = 1\<rparr>"
    by (simp add: lookup_cart_def shop2_def)
  have e: "find (\<lambda>i. ci_productId i = 1)
             (items_of (cartItems shop2) (c_id \<lparr>c_id = 1, c_userId = 1\<rparr>)) = Some ?it"
    by (simp add: shop2_def items_of_def)
  have w: "lookup_product (products shop2) 1 = Some widget"
    by (simp add: shop2_def lookup_product_def widget_def)
  have s: "0 \<le> p_stock widget" by (simp add: widget_def)
  have one: "(1::int) \<le> 1" and lt: "(0::int) < 1" by simp_all
  have all: "\<forall>i \<in> set (items_of (cartItems shop2) (c_id \<lparr>c_id = 1, c_userId = 1\<rparr>)).
           lookup_product (products shop2) (ci_productId i) \<noteq> None"
    by (simp add: shop2_def items_of_def lookup_product_def widget_def gadget_def)
  have f: "filter (\<lambda>i. ci_id i \<noteq> ci_id ?it) (cartItems shop2) =
     [\<lparr>ci_id = 2, ci_cartId = 2, ci_productId = 1, ci_quantity = 1\<rparr>,
      \<lparr>ci_id = 3, ci_cartId = 1, ci_productId = 2, ci_quantity = 60\<rparr>]"
    by (simp add: shop2_def)
  note t = update_below_one_is_remove [OF u one p one c e w s all q lt]
  from t have t1: "cartItems (snd (updateCartItem ?r shop2)) =
          filter (\<lambda>i. ci_id i \<noteq> ci_id ?it) (cartItems shop2)"
    by blast
  from t have t2: "cartItems (snd (updateCartItem ?r shop2)) =
          cartItems (snd (removeFromCart ?r shop2))"
    by blast
  from u p q c e w s t1 [unfolded f] t2 show ?thesis
    by (intro conjI) simp_all
qed

text \<open>Through the router the same request is an error and deletes nothing: the
  validator answers before the handler is reached.\<close>

theorem PUT_zero_rejected:
  "cartRouter tokens PUT_item
     \<lparr>h_authorization = Some ''Bearer alice-token'', h_productId = Some 1,
      h_body_productId = JUndefined, h_body_quantity = JInt 0\<rparr> shop2 =
   (Inl (ValidationError ''Quantity must be between 1 and 100''),
    shop2\<lparr>queries := [Q_user_findUnique 1]\<rparr>)"
  by (simp add: cartRouter_def authenticate_def tokens_def prisma_defs shop2_def alice_def
      validateQuantityUpdate_def validate_def isInt_errors_def in_bounds_def)

subsection \<open>Where the owner comes from\<close>

text \<open>
  C2. \<open>getCart\<close> and \<open>addToCart\<close> take the owner from the token. \<open>updateCartItem\<close>,
  \<open>removeFromCart\<close> and \<open>clearCart\<close> take it from \<open>req.params.userId\<close>, which no path of
  the router binds: for Alice, authenticated, each of the three routes answers
  ValidationError ``Invalid user ID'' and her cart is not read. Where the parameter is
  bound, it and not the token selects the cart: a removal with Alice's token and
  \<open>userId = 2\<close> deletes Bob's widget.
\<close>

theorem owner_from_params:
  "fst (cartRouter tokens PUT_item
     \<lparr>h_authorization = Some ''Bearer alice-token'', h_productId = Some 1,
      h_body_productId = JUndefined, h_body_quantity = JInt 2\<rparr> shop2) =
     Inl (ValidationError ''Invalid user ID'') \<and>
   fst (cartRouter tokens DELETE_item
     \<lparr>h_authorization = Some ''Bearer alice-token'', h_productId = Some 1,
      h_body_productId = JUndefined, h_body_quantity = JUndefined\<rparr> shop2) =
     Inl (ValidationError ''Invalid user ID'') \<and>
   fst (cartRouter tokens DELETE_cart
     \<lparr>h_authorization = Some ''Bearer alice-token'', h_productId = None,
      h_body_productId = JUndefined, h_body_quantity = JUndefined\<rparr> shop2) =
     Inl (ValidationError ''Invalid user ID'') \<and>
   cartItems (snd (removeFromCart
     \<lparr>user_userId = 1, params_userId = Some 2, params_productId = Some 1,
      body_productId = 1, body_quantity = None\<rparr> shop2)) =
     [\<lparr>ci_id = 1, ci_cartId = 1, ci_productId = 1, ci_quantity = 3\<rparr>,
      \<lparr>ci_id = 3, ci_cartId = 1, ci_productId = 2, ci_quantity = 60\<rparr>]"
  by (simp add: cartRouter_def authenticate_def tokens_def prisma_defs shop2_def alice_def
      validateQuantityUpdate_def validate_def isInt_errors_def in_bounds_def to_req_def
      updateCartItem_def removeFromCart_def clearCart_def refetch_db
      lookup_cart_def items_of_def)

subsection \<open>The product snapshot of the returned items\<close>

text \<open>
  C9. The \<open>select\<close> of \<open>getCart\<close> lists \<open>isActive\<close>; the \<open>select\<close> of the cart that
  \<open>addToCart\<close>, \<open>updateCartItem\<close> and \<open>removeFromCart\<close> fetch for their answer does not.
  On Alice's cart the items \<open>getCart\<close> returns carry \<open>isActive\<close>, the items the other
  three return do not.
\<close>

theorem snapshot_without_isActive:
  "(case fst (getCart (request 1 None 1 None) shop2) of
      Inl e \<Rightarrow> []
    | Inr resp \<Rightarrow> map (\<lambda>i. s_isActive (vi_product i)) (v_items (r_cart resp))) =
     [Some True, Some True] \<and>
   (case fst (addToCart (request 1 None 1 (Some 1)) shop2) of
      Inl e \<Rightarrow> []
    | Inr resp \<Rightarrow> map (\<lambda>i. s_isActive (vi_product i)) (v_items (r_cart resp))) =
     [None, None] \<and>
   (case fst (updateCartItem (request 1 (Some 1) 1 (Some 1)) shop2) of
      Inl e \<Rightarrow> []
    | Inr resp \<Rightarrow> map (\<lambda>i. s_isActive (vi_product i)) (v_items (r_cart resp))) =
     [None, None] \<and>
   (case fst (removeFromCart (request 1 (Some 1) 1 None) shop2) of
      Inl e \<Rightarrow> []
    | Inr resp \<Rightarrow> map (\<lambda>i. s_isActive (vi_product i)) (v_items (r_cart resp))) =
     [None]"
  by (simp add: shop2_def request_def getCart_def addToCart_def updateCartItem_def
      removeFromCart_def prisma_defs
      refetch_def cartResponse_def enriched_def items_with_product_def select_product_def
      lookup_cart_def lookup_product_def items_of_def widget_def gadget_def)

subsection \<open>One item per cart and product\<close>

lemma unique_items_filter: "unique_items its \<Longrightarrow> unique_items (filter P its)"
  by (simp add: unique_items_def distinct_map_filter)

lemma unique_items_set_quantity:
  "unique_items (map (\<lambda>i. if ci_id i = x then i\<lparr>ci_quantity := n\<rparr> else i) its) = unique_items its"
proof -
  have "map (\<lambda>i. (ci_cartId i, ci_productId i))
          (map (\<lambda>i. if ci_id i = x then i\<lparr>ci_quantity := n\<rparr> else i) its) =
        map (\<lambda>i. (ci_cartId i, ci_productId i)) its"
    by (induction its) auto
  then show ?thesis by (simp only: unique_items_def)
qed

lemma find_items_of_None:
  "find (\<lambda>i. ci_productId i = p) (items_of its cid) = None \<Longrightarrow>
     (cid, p) \<notin> (\<lambda>i. (ci_cartId i, ci_productId i)) ` set its"
  by (auto simp: find_None_iff items_of_def)

lemma unique_items_append:
  "unique_items its \<Longrightarrow> find (\<lambda>i. ci_productId i = p) (items_of its cid) = None \<Longrightarrow>
     unique_items (its @ [\<lparr>ci_id = n, ci_cartId = cid, ci_productId = p, ci_quantity = q\<rparr>])"
  using find_items_of_None [of p its cid] by (simp add: unique_items_def)

lemma getCart_cartItems [simp]: "cartItems (snd (getCart r d)) = cartItems d"
  by (simp add: getCart_def Let_def prisma_defs split: option.splits)

lemma removeFromCart_cartItems:
  "cartItems (snd (removeFromCart r d)) = cartItems d \<or>
   (\<exists>x. cartItems (snd (removeFromCart r d)) = filter (\<lambda>i. ci_id i \<noteq> x) (cartItems d))"
  by (auto simp: removeFromCart_def Let_def prisma_defs refetch_db split: option.splits)

lemma clearCart_cartItems:
  "cartItems (snd (clearCart r d)) = cartItems d \<or>
   (\<exists>x. cartItems (snd (clearCart r d)) = filter (\<lambda>i. ci_cartId i \<noteq> x) (cartItems d))"
  by (auto simp: clearCart_def Let_def prisma_defs split: option.splits)

lemma step_unique_items:
  assumes "unique_items (cartItems d)"
  shows "unique_items (cartItems (step d e))"
proof (cases e)
  case (SetProducts ps)
  with assms show ?thesis by simp
next
  case (Call c)
  show ?thesis
  proof (cases c)
    case (GetCart r)
    with Call assms show ?thesis by simp
  next
    case (AddToCart r)
    with Call assms addToCart_cartItems [OF refl, of r d] show ?thesis
      by (auto simp: unique_items_set_quantity intro: unique_items_append)
  next
    case (UpdateCartItem r)
    with Call assms updateCartItem_cartItems [of r d] show ?thesis
      by (auto simp: unique_items_set_quantity intro: unique_items_filter)
  next
    case (RemoveFromCart r)
    with Call assms removeFromCart_cartItems [of r d] show ?thesis
      by (auto intro: unique_items_filter)
  next
    case (ClearCart r)
    with Call assms clearCart_cartItems [of r d] show ?thesis
      by (auto intro: unique_items_filter)
  qed
qed

lemma run_unique_items:
  "unique_items (cartItems d) \<Longrightarrow> unique_items (cartItems (run d es))"
  unfolding run_def
  by (induction es arbitrary: d) (simp_all add: step_unique_items)

lemma unique_items_cart:
  "unique_items its \<Longrightarrow> distinct (map ci_productId (items_of its cid))"
proof -
  assume u: "unique_items its"
  have "distinct (map (\<lambda>i. (ci_cartId i, ci_productId i)) (items_of its cid))"
    using u by (simp add: unique_items_def items_of_def distinct_map_filter)
  moreover have "map (\<lambda>i. (ci_cartId i, ci_productId i)) (items_of its cid) =
                 map (\<lambda>p. (cid, p)) (map ci_productId (items_of its cid))"
    by (simp add: items_of_def)
  ultimately show ?thesis
    by (metis distinct_map)
qed

text \<open>
  C6. From a store in which no cart holds two items for one product (an empty store, or
  an owner's empty cart, in particular), any sequence of the five cart calls, with
  any requests and with any changes of the product table between them, leaves every
  cart without two items for the same product: \<open>addToCart\<close> creates an item only when
  the cart has none for the product and otherwise updates the one it found.
\<close>

theorem uniqueness:
  assumes "unique_items (cartItems d)"
  shows "distinct (map ci_productId (items_of (cartItems (run d es)) cid))"
  using assms by (intro unique_items_cart run_unique_items)

text \<open>Alice adds three widgets, two more, then seven gadgets: two items, five widgets.\<close>

theorem uniqueness_witness:
  "unique_items (cartItems shop) \<and>
   cartItems (run shop
     [Call (AddToCart (request 1 None 1 (Some 3))),
      Call (AddToCart (request 1 None 1 (Some 2))),
      Call (AddToCart (request 1 None 2 (Some 7)))]) =
     [\<lparr>ci_id = 1, ci_cartId = 1, ci_productId = 1, ci_quantity = 5\<rparr>,
      \<lparr>ci_id = 2, ci_cartId = 1, ci_productId = 2, ci_quantity = 7\<rparr>] \<and>
   distinct (map ci_productId (items_of (cartItems (run shop
     [Call (AddToCart (request 1 None 1 (Some 3))),
      Call (AddToCart (request 1 None 1 (Some 2))),
      Call (AddToCart (request 1 None 2 (Some 7)))])) 1))"
proof -
  have u: "unique_items (cartItems shop)"
    by (simp add: shop_def empty_db_def unique_items_def)
  have r: "cartItems (run shop
     [Call (AddToCart (request 1 None 1 (Some 3))),
      Call (AddToCart (request 1 None 1 (Some 2))),
      Call (AddToCart (request 1 None 2 (Some 7)))]) =
     [\<lparr>ci_id = 1, ci_cartId = 1, ci_productId = 1, ci_quantity = 5\<rparr>,
      \<lparr>ci_id = 2, ci_cartId = 1, ci_productId = 2, ci_quantity = 7\<rparr>]"
    by (simp add: run_def shop_def empty_db_def request_def addToCart_def prisma_defs refetch_db
        Let_def lookup_cart_def lookup_product_def items_of_def widget_def gadget_def)
  from uniqueness [OF u] u r show ?thesis by blast
qed

subsection \<open>Quantities stay within the stock read at the last write\<close>

lemma lookup_cart_None: "lookup_cart cs u = None \<Longrightarrow> u \<notin> c_userId ` set cs"
  by (auto simp: lookup_cart_def find_None_iff)

lemma store_inv_new_cart:
  "store_inv cs its nc ni \<Longrightarrow> lookup_cart cs u = None \<Longrightarrow>
     store_inv (cs @ [\<lparr>c_id = nc, c_userId = u\<rparr>]) its (nc + 1) ni"
  by (force simp: store_inv_def dest: lookup_cart_None)

lemma store_inv_new_item:
  "store_inv cs its nc ni \<Longrightarrow> c \<in> set cs \<Longrightarrow>
   find (\<lambda>i. ci_productId i = p) (items_of its (c_id c)) = None \<Longrightarrow>
     store_inv cs (its @ [\<lparr>ci_id = ni, ci_cartId = c_id c, ci_productId = p, ci_quantity = q\<rparr>])
       nc (ni + 1)"
  by (force simp: store_inv_def intro: unique_items_append)

lemma map_set_quantity_ids:
  "map ci_id (map (\<lambda>i. if ci_id i = x then i\<lparr>ci_quantity := n\<rparr> else i) its) = map ci_id its"
  by (induction its) auto

lemma store_inv_set_quantity:
  "store_inv cs its nc ni \<Longrightarrow>
     store_inv cs (map (\<lambda>i. if ci_id i = x then i\<lparr>ci_quantity := n\<rparr> else i) its) nc ni"
  using map_set_quantity_ids [of x n its]
  by (auto simp: store_inv_def unique_items_set_quantity simp del: map_map)

lemma store_inv_filter:
  "store_inv cs its nc ni \<Longrightarrow> store_inv cs (filter P its) nc ni"
  by (auto simp: store_inv_def distinct_map_filter intro: unique_items_filter)

lemma bounded_new_cart:
  "store_inv cs its nc ni \<Longrightarrow> bounded cs its g \<Longrightarrow>
     bounded (cs @ [\<lparr>c_id = nc, c_userId = u\<rparr>]) its g"
  by (fastforce simp: store_inv_def bounded_def)

lemma bounded_filter: "bounded cs its g \<Longrightarrow> bounded cs (filter P its) g"
  by (simp add: bounded_def)

lemma same_owner_same_cart:
  "distinct (map c_userId cs) \<Longrightarrow> c \<in> set cs \<Longrightarrow> c' \<in> set cs \<Longrightarrow>
     c_userId c' = c_userId c \<Longrightarrow> c' = c"
  by (meson distinct_map inj_onD)

lemma same_key_same_item:
  "unique_items its \<Longrightarrow> i \<in> set its \<Longrightarrow> j \<in> set its \<Longrightarrow>
     ci_cartId i = ci_cartId j \<Longrightarrow> ci_productId i = ci_productId j \<Longrightarrow> i = j"
  unfolding unique_items_def distinct_map
  by (auto dest: inj_onD)

lemma same_id_same_cart:
  "distinct (map c_id cs) \<Longrightarrow> c \<in> set cs \<Longrightarrow> c' \<in> set cs \<Longrightarrow> c_id c' = c_id c \<Longrightarrow> c' = c"
  by (meson distinct_map inj_onD)

lemma same_id_same_item:
  "distinct (map ci_id its) \<Longrightarrow> i \<in> set its \<Longrightarrow> j \<in> set its \<Longrightarrow> ci_id i = ci_id j \<Longrightarrow> i = j"
  by (meson distinct_map inj_onD)

lemma bounded_new_item:
  assumes inv: "store_inv cs its nc ni" and b: "bounded cs its g"
    and c: "c \<in> set cs"
    and none: "find (\<lambda>i. ci_productId i = p) (items_of its (c_id c)) = None"
    and q: "q \<le> s"
  shows "bounded cs (its @ [\<lparr>ci_id = ni, ci_cartId = c_id c, ci_productId = p, ci_quantity = q\<rparr>])
           (g((c_userId c, p) \<mapsto> s))"
  unfolding bounded_def
proof (intro ballI impI)
  fix c' i
  assume c': "c' \<in> set cs"
    and i: "i \<in> set (its @ [\<lparr>ci_id = ni, ci_cartId = c_id c, ci_productId = p, ci_quantity = q\<rparr>])"
    and ci: "ci_cartId i = c_id c'"
  from inv have du: "distinct (map c_userId cs)" and dc: "distinct (map c_id cs)"
    by (simp_all add: store_inv_def)
  show "\<exists>s'. (g((c_userId c, p) \<mapsto> s)) (c_userId c', ci_productId i) = Some s' \<and>
             ci_quantity i \<le> s'"
  proof (cases "i \<in> set its")
    case False
    with i have new: "i = \<lparr>ci_id = ni, ci_cartId = c_id c, ci_productId = p, ci_quantity = q\<rparr>"
      by simp
    with ci have "c_id c' = c_id c" by simp
    with dc c c' have "c' = c" by (rule same_id_same_cart)
    with new q show ?thesis by simp
  next
    case True
    have "(c_userId c', ci_productId i) \<noteq> (c_userId c, p)"
    proof
      assume k: "(c_userId c', ci_productId i) = (c_userId c, p)"
      with du c c' have "c' = c" by (auto intro: same_owner_same_cart)
      with ci k True have "(c_id c, p) \<in> (\<lambda>i. (ci_cartId i, ci_productId i)) ` set its"
        by force
      with find_items_of_None [OF none] show False by contradiction
    qed
    moreover from b c' True ci
    obtain s' where "g (c_userId c', ci_productId i) = Some s'" "ci_quantity i \<le> s'"
      unfolding bounded_def by blast
    ultimately show ?thesis by auto
  qed
qed

lemma bounded_set_quantity:
  assumes inv: "store_inv cs its nc ni" and b: "bounded cs its g"
    and c: "c \<in> set cs"
    and e: "e \<in> set its" "ci_cartId e = c_id c" "ci_productId e = p"
    and n: "n \<le> s"
  shows "bounded cs (map (\<lambda>i. if ci_id i = ci_id e then i\<lparr>ci_quantity := n\<rparr> else i) its)
           (g((c_userId c, p) \<mapsto> s))"
  unfolding bounded_def
proof (intro ballI impI)
  fix c' i
  assume c': "c' \<in> set cs"
    and i: "i \<in> set (map (\<lambda>i. if ci_id i = ci_id e then i\<lparr>ci_quantity := n\<rparr> else i) its)"
    and ci: "ci_cartId i = c_id c'"
  from inv have du: "distinct (map c_userId cs)" and dc: "distinct (map c_id cs)"
    and di: "distinct (map ci_id its)" and un: "unique_items its"
    by (simp_all add: store_inv_def)
  from i obtain j where j: "j \<in> set its"
    and ij: "i = (if ci_id j = ci_id e then j\<lparr>ci_quantity := n\<rparr> else j)"
    by auto
  show "\<exists>s'. (g((c_userId c, p) \<mapsto> s)) (c_userId c', ci_productId i) = Some s' \<and>
             ci_quantity i \<le> s'"
  proof (cases "ci_id j = ci_id e")
    case True
    with di j e(1) have "j = e" by (auto intro: same_id_same_item)
    with True ij have ie: "i = e\<lparr>ci_quantity := n\<rparr>" by simp
    with ci e(2) have "c_id c' = c_id c" by simp
    with dc c c' have "c' = c" by (rule same_id_same_cart)
    with ie e(3) n show ?thesis by simp
  next
    case False
    with ij have ij': "i = j" by simp
    have "(c_userId c', ci_productId i) \<noteq> (c_userId c, p)"
    proof
      assume k: "(c_userId c', ci_productId i) = (c_userId c, p)"
      with du c c' have "c' = c" by (auto intro: same_owner_same_cart)
      with ci k ij' e have "ci_cartId j = ci_cartId e" "ci_productId j = ci_productId e"
        by simp_all
      with un j e(1) have "j = e" by (rule same_key_same_item)
      with False show False by simp
    qed
    moreover from b c' j ci ij'
    obtain s' where "g (c_userId c', ci_productId i) = Some s'" "ci_quantity i \<le> s'"
      unfolding bounded_def by blast
    ultimately show ?thesis by auto
  qed
qed


lemma track_getCart: "tracked_inv (d, g) \<Longrightarrow> tracked_inv (track (d, g) (Call (GetCart r)))"
  by (auto simp: tracked_inv_def getCart_def Let_def prisma_defs split: option.splits
      intro: store_inv_new_cart bounded_new_cart)

lemma track_removeFromCart: "tracked_inv (d, g) \<Longrightarrow> tracked_inv (track (d, g) (Call (RemoveFromCart r)))"
  by (auto simp: tracked_inv_def removeFromCart_def Let_def prisma_defs refetch_db split: option.splits
      intro: store_inv_filter bounded_filter)

lemma track_clearCart: "tracked_inv (d, g) \<Longrightarrow> tracked_inv (track (d, g) (Call (ClearCart r)))"
  by (auto simp: tracked_inv_def clearCart_def Let_def prisma_defs split: option.splits
      intro: store_inv_filter bounded_filter)


lemma track_updateCartItem: "tracked_inv (d, g) \<Longrightarrow> tracked_inv (track (d, g) (Call (UpdateCartItem r)))"
  by (auto simp: tracked_inv_def updateCartItem_def Let_def prisma_defs refetch_db split: option.splits
      dest!: find_in_items_of lookup_cart_Some
      intro: store_inv_filter bounded_filter store_inv_set_quantity bounded_set_quantity)


lemma ensure_cart:
  assumes inv: "store_inv (carts d) (cartItems d) (nextCartId d) (nextCartItemId d)"
    and b: "bounded (carts d) (cartItems d) g"
  obtains c d3 qs where
    "(case cart_findUnique_items u d of
        (Some cart, d2) \<Rightarrow> (cart, d2)
      | (None, d2) \<Rightarrow> cart_create_items u d2) = ((c, items_of (cartItems d) (c_id c)), d3)"
    and "c \<in> set (carts d3)" and "c_userId c = u"
    and "cartItems d3 = cartItems d" and "nextCartItemId d3 = nextCartItemId d"
    and "products d3 = products d"
    and "store_inv (carts d3) (cartItems d3) (nextCartId d3) (nextCartItemId d3)"
    and "bounded (carts d3) (cartItems d3) g"
    and "queries d3 = queries d @ qs" and "\<not> list_ex is_write qs"
proof (cases "lookup_cart (carts d) u")
  case None
  let ?c = "\<lparr>c_id = nextCartId d, c_userId = u\<rparr>"
  let ?d3 = "d\<lparr>queries := queries d @ [Q_cart_findUnique u Items], carts := carts d @ [?c],
               nextCartId := nextCartId d + 1,
               queries := queries d @ [Q_cart_findUnique u Items, Q_cart_create u Items]\<rparr>"
  show ?thesis
  proof (rule that [of ?c ?d3 "[Q_cart_findUnique u Items, Q_cart_create u Items]"])
    show "(case cart_findUnique_items u d of
        (Some cart, d2) \<Rightarrow> (cart, d2)
      | (None, d2) \<Rightarrow> cart_create_items u d2) = ((?c, items_of (cartItems d) (c_id ?c)), ?d3)"
      using None by (simp add: prisma_defs Let_def)
    show "store_inv (carts ?d3) (cartItems ?d3) (nextCartId ?d3) (nextCartItemId ?d3)"
      using store_inv_new_cart [OF inv None] by simp
    show "bounded (carts ?d3) (cartItems ?d3) g"
      using bounded_new_cart [OF inv b, of u] by simp
  qed simp_all
next
  case (Some c)
  let ?d3 = "d\<lparr>queries := queries d @ [Q_cart_findUnique u Items]\<rparr>"
  show ?thesis
  proof (rule that [of c ?d3 "[Q_cart_findUnique u Items]"])
    show "(case cart_findUnique_items u d of
        (Some cart, d2) \<Rightarrow> (cart, d2)
      | (None, d2) \<Rightarrow> cart_create_items u d2) = ((c, items_of (cartItems d) (c_id c)), ?d3)"
      using Some by (simp add: prisma_defs)
    show "c \<in> set (carts ?d3)" "c_userId c = u"
      using lookup_cart_Some [OF Some] by simp_all
    show "store_inv (carts ?d3) (cartItems ?d3) (nextCartId ?d3) (nextCartItemId ?d3)"
      using inv by simp
    show "bounded (carts ?d3) (cartItems ?d3) g"
      using b by simp
  qed simp_all
qed


lemma track_addToCart:
  assumes "tracked_inv (d, g)"
  shows "tracked_inv (track (d, g) (Call (AddToCart r)))"
proof -
  let ?u = "user_userId r" and ?p = "body_productId r"
  let ?q = "case body_quantity r of None \<Rightarrow> 1 | Some q \<Rightarrow> q"
  let ?d1 = "logq (Q_product_findUnique ?p) d"
  from assms have inv: "store_inv (carts d) (cartItems d) (nextCartId d) (nextCartItemId d)"
    and b: "bounded (carts d) (cartItems d) g"
    by (simp_all add: tracked_inv_def)
  show ?thesis
  proof (cases "?u < 1 \<or> lookup_product (products d) ?p = None")
    case True
    with inv b show ?thesis
      by (auto simp: tracked_inv_def addToCart_def Let_def product_findUnique_def logq_def)
  next
    case False
    then obtain pr where pr: "lookup_product (products d) ?p = Some pr" and u: "\<not> ?u < 1"
      by auto
    show ?thesis
    proof (cases "\<not> p_isActive pr \<or> p_stock pr < 1 \<or> p_stock pr < ?q")
      case True
      with inv b pr u show ?thesis
        by (auto simp: tracked_inv_def addToCart_def Let_def product_findUnique_def logq_def)
    next
      case ok: False
      have inv1: "store_inv (carts ?d1) (cartItems ?d1) (nextCartId ?d1) (nextCartItemId ?d1)"
        and b1: "bounded (carts ?d1) (cartItems ?d1) g"
        using inv b by (simp_all add: logq_def)
      from ensure_cart [OF inv1 b1, of ?u]
      obtain c d3 qs where
        E: "(case cart_findUnique_items ?u ?d1 of
              (Some cart, d2) \<Rightarrow> (cart, d2)
            | (None, d2) \<Rightarrow> cart_create_items ?u d2) =
            ((c, items_of (cartItems ?d1) (c_id c)), d3)"
        and c: "c \<in> set (carts d3)" and cu: "c_userId c = ?u"
        and its: "cartItems d3 = cartItems ?d1" and ni: "nextCartItemId d3 = nextCartItemId ?d1"
        and ps: "products d3 = products ?d1"
        and inv3: "store_inv (carts d3) (cartItems d3) (nextCartId d3) (nextCartItemId d3)"
        and b3: "bounded (carts d3) (cartItems d3) g"
        and qs: "queries d3 = queries ?d1 @ qs" and nw: "\<not> list_ex is_write qs"
        by blast
      have its': "cartItems d3 = cartItems d" and ni': "nextCartItemId d3 = nextCartItemId d"
        and qs': "queries d3 = queries d @ Q_product_findUnique ?p # qs"
        using its ni qs by (simp_all add: logq_def)
      show ?thesis
      proof (cases "find (\<lambda>item. ci_productId item = ?p) (items_of (cartItems d3) (c_id c))")
        case None
        have res: "snd (addToCart r d) =
          logq (Q_cart_findUnique ?u (ItemsWithProduct False)) (cartItem_create (c_id c) ?p ?q d3)"
          using u pr ok E None its
          by (simp add: addToCart_def Let_def product_findUnique_def refetch_db)
        have q: "?q \<le> p_stock pr" using ok by simp
        from store_inv_new_item [OF inv3 c None, of ?q]
          bounded_new_item [OF inv3 b3 c None q] cu
        show ?thesis
          by (simp add: tracked_inv_def res pr cartItem_create_def logq_def qs' nw)
      next
        case (Some e)
        from find_in_items_of [OF Some]
        have e: "e \<in> set (cartItems d3)" "ci_cartId e = c_id c" "ci_productId e = ?p"
          by simp_all
        show ?thesis
        proof (cases "ci_quantity e + ?q > p_stock pr")
          case True
          have res: "snd (addToCart r d) = d3"
            using u pr ok E Some its True
            by (simp add: addToCart_def Let_def product_findUnique_def)
          from inv3 b3 show ?thesis
            by (simp add: tracked_inv_def res qs' nw)
        next
          case False
          have res: "snd (addToCart r d) =
            logq (Q_cart_findUnique ?u (ItemsWithProduct False))
              (cartItem_update (ci_id e) (Some (ci_quantity e + ?q)) d3)"
            using u pr ok E Some its False
            by (simp add: addToCart_def Let_def product_findUnique_def refetch_db)
          have q: "ci_quantity e + ?q \<le> p_stock pr" using False by simp
          from store_inv_set_quantity [OF inv3, of "ci_id e" "ci_quantity e + ?q"]
            bounded_set_quantity [OF inv3 b3 c e q] cu
          show ?thesis
            by (simp add: tracked_inv_def res pr cartItem_update_def logq_def qs' nw)
        qed
      qed
    qed
  qed
qed

lemma track_SetProducts: "tracked_inv (d, g) \<Longrightarrow> tracked_inv (track (d, g) (SetProducts ps))"
  by (simp add: tracked_inv_def)

lemma track_inv: "tracked_inv x \<Longrightarrow> tracked_inv (track x e)"
proof (cases x)
  case (Pair d g)
  assume "tracked_inv x"
  with Pair have i: "tracked_inv (d, g)" by simp
  show ?thesis
  proof (cases e)
    case (SetProducts ps)
    with i Pair show ?thesis by (simp only: track_SetProducts)
  next
    case (Call c)
    with i Pair show ?thesis
      by (cases c)
        (simp_all only: track_getCart track_addToCart track_updateCartItem
          track_removeFromCart track_clearCart)
  qed
qed

lemma foldl_track_inv: "tracked_inv x \<Longrightarrow> tracked_inv (foldl track x es)"
  by (induction es arbitrary: x) (simp_all add: track_inv)

lemma fst_track: "fst (track x e) = step (fst x) e"
  by (cases x; cases e) (simp_all add: Let_def)

lemma fst_foldl_track: "fst (foldl track x es) = foldl step (fst x) es"
  by (induction es arbitrary: x) (simp_all add: fst_track)


lemma tracked_inv_empty: "tracked_inv (empty_db ps us, Map.empty)"
  by (simp add: tracked_inv_def empty_db_def store_inv_def bounded_def unique_items_def)

lemma fst_run_tracked: "fst (run_tracked d es) = run d es"
  by (simp add: run_tracked_def run_def fst_foldl_track)

lemma addToCart_over_stock:
  assumes "lookup_product (products d) (body_productId r) = Some pr"
    and "lookup_cart (carts d) (user_userId r) = Some c"
    and "find (\<lambda>i. ci_productId i = body_productId r) (items_of (cartItems d) (c_id c)) = Some e"
    and "p_stock pr < ci_quantity e + (case body_quantity r of None \<Rightarrow> 1 | Some n \<Rightarrow> n)"
  shows "(\<exists>err. fst (addToCart r d) = Inl err) \<and> cartItems (snd (addToCart r d)) = cartItems d"
  using assms
  by (auto simp: addToCart_def Let_def prisma_defs refetch_db split: option.splits)

lemma updateCartItem_over_stock:
  assumes "params_productId r = Some p"
    and "lookup_product (products d) p = Some pr"
    and "body_quantity r = Some q" and "p_stock pr < q"
  shows "(\<exists>err. fst (updateCartItem r d) = Inl err) \<and>
         cartItems (snd (updateCartItem r d)) = cartItems d"
  using assms
  by (auto simp: updateCartItem_def Let_def prisma_defs refetch_db split: option.splits)

text \<open>
  C1. Run any sequence of the five cart calls, with any requests and with any changes of
  the product table between them, from an empty store. Then every item of every cart
  has a quantity no greater than the stock its product had in the table at the last
  call that wrote a quantity for that owner and product (\<open>run_tracked\<close> records that
  stock). The two checks behind it: \<open>addToCart\<close> fails and writes no item when the
  cart's item plus the requested quantity would exceed the stock, and \<open>updateCartItem\<close>
  fails and writes no item when the requested quantity exceeds the stock.
\<close>

theorem stock_bound:
  "fst (run_tracked (empty_db ps us) es) = run (empty_db ps us) es \<and>
   (\<forall>c \<in> set (carts (run (empty_db ps us) es)).
    \<forall>i \<in> set (cartItems (run (empty_db ps us) es)).
      ci_cartId i = c_id c \<longrightarrow>
      (\<exists>s. snd (run_tracked (empty_db ps us) es) (c_userId c, ci_productId i) = Some s \<and>
           ci_quantity i \<le> s)) \<and>
   (\<forall>r d pr c e.
      lookup_product (products d) (body_productId r) = Some pr \<and>
      lookup_cart (carts d) (user_userId r) = Some c \<and>
      find (\<lambda>i. ci_productId i = body_productId r) (items_of (cartItems d) (c_id c)) = Some e \<and>
      p_stock pr < ci_quantity e + (case body_quantity r of None \<Rightarrow> 1 | Some n \<Rightarrow> n) \<longrightarrow>
      (\<exists>err. fst (addToCart r d) = Inl err) \<and> cartItems (snd (addToCart r d)) = cartItems d) \<and>
   (\<forall>r d p pr q.
      params_productId r = Some p \<and> lookup_product (products d) p = Some pr \<and>
      body_quantity r = Some q \<and> p_stock pr < q \<longrightarrow>
      (\<exists>err. fst (updateCartItem r d) = Inl err) \<and>
      cartItems (snd (updateCartItem r d)) = cartItems d)"
proof -
  let ?x = "run_tracked (empty_db ps us) es"
  have "tracked_inv ?x"
    unfolding run_tracked_def by (rule foldl_track_inv [OF tracked_inv_empty])
  then have "bounded (carts (fst ?x)) (cartItems (fst ?x)) (snd ?x)"
    by (simp add: tracked_inv_def case_prod_beta)
  then have "\<forall>c \<in> set (carts (run (empty_db ps us) es)).
    \<forall>i \<in> set (cartItems (run (empty_db ps us) es)).
      ci_cartId i = c_id c \<longrightarrow>
      (\<exists>s. snd ?x (c_userId c, ci_productId i) = Some s \<and> ci_quantity i \<le> s)"
    unfolding bounded_def fst_run_tracked .
  with fst_run_tracked [of "empty_db ps us" es] addToCart_over_stock updateCartItem_over_stock
  show ?thesis by blast
qed

text \<open>In \<open>history\<close> the two requests made after the stock fell to 2 are refused; the three
  widgets stay, within the stock of 5 that was read when they were written.\<close>

lemmas run_eval = run_def shop_def empty_db_def request_def addToCart_def updateCartItem_def
     prisma_defs refetch_db Let_def lookup_cart_def lookup_product_def items_of_def
     widget_def gadget_def

theorem stock_bound_witness:
  "\<lparr>c_id = 1, c_userId = 1\<rparr> \<in> set (carts (run shop history)) \<and>
   \<lparr>ci_id = 1, ci_cartId = 1, ci_productId = 1, ci_quantity = 3\<rparr> \<in> set (cartItems (run shop history)) \<and>
   map p_stock (products (run shop history)) = [2, 200] \<and>
   (\<exists>s. snd (run_tracked shop history) (1, 1) = Some s \<and> 3 \<le> s)"
proof -
  let ?c = "\<lparr>c_id = 1, c_userId = 1\<rparr>"
  let ?i = "\<lparr>ci_id = 1, ci_cartId = 1, ci_productId = 1, ci_quantity = 3\<rparr>"
  have c: "?c \<in> set (carts (run shop history))"
    by (simp add: history_def run_eval)
  have i: "?i \<in> set (cartItems (run shop history))"
    by (simp add: history_def run_eval)
  have p: "map p_stock (products (run shop history)) = [2, 200]"
    by (simp add: history_def run_eval)
  from stock_bound [of "[widget, gadget]" "[alice, bob]" history]
  have "\<forall>c \<in> set (carts (run shop history)). \<forall>i \<in> set (cartItems (run shop history)).
      ci_cartId i = c_id c \<longrightarrow>
      (\<exists>s. snd (run_tracked shop history) (c_userId c, ci_productId i) = Some s \<and> ci_quantity i \<le> s)"
    unfolding shop_def by blast
  from this [rule_format, OF c i] have "\<exists>s. snd (run_tracked shop history) (1, 1) = Some s \<and> 3 \<le> s"
    by simp
  with c i p show ?thesis by blast
qed

subsection \<open>clearCart through the router\<close>

text \<open>
  C8. As a handler, \<open>clearCart\<close> would look the cart of \<open>req.params.userId\<close> up, fail with
  NotFound without one, and otherwise delete its items and answer the empty view. The
  router never lets it: \<^verbatim>\<open>DELETE /api/cart\<close> binds no \<open>:userId\<close>, so for Alice, authenticated
  and with two items in her cart, the answer is ValidationError ``Invalid user ID'',
  the only call issued is the lookup of the user, and the two items stay. In a shop
  where she has no cart the answer is the same error, not NotFound.
\<close>

theorem clearCart_never_clears:
  "cartRouter tokens DELETE_cart
     \<lparr>h_authorization = Some ''Bearer alice-token'', h_productId = None,
      h_body_productId = JUndefined, h_body_quantity = JUndefined\<rparr> shop2 =
     (Inl (ValidationError ''Invalid user ID''), shop2\<lparr>queries := [Q_user_findUnique 1]\<rparr>) \<and>
   length (items_of (cartItems shop2) 1) = 2 \<and>
   lookup_cart (carts shop) 1 = None \<and>
   fst (cartRouter tokens DELETE_cart
     \<lparr>h_authorization = Some ''Bearer alice-token'', h_productId = None,
      h_body_productId = JUndefined, h_body_quantity = JUndefined\<rparr> shop) =
     Inl (ValidationError ''Invalid user ID'')"
  by (simp add: cartRouter_def authenticate_def tokens_def prisma_defs shop2_def shop_def
      empty_db_def alice_def to_req_def clearCart_def lookup_cart_def items_of_def)

subsection \<open>The totals of the returned view\<close>

lemma enrichItems_Inr:
  "enrichItems rows = Inr vs \<Longrightarrow>
     list_all2 (\<lambda>row v. \<exists>p. snd row = Some p \<and> v = enriched (fst row) p) rows vs"
proof (induction rows arbitrary: vs)
  case Nil
  then show ?case by simp
next
  case (Cons row rows)
  obtain i s where row: "row = (i, s)" by (cases row)
  with Cons.prems obtain p where p: "s = Some p"
    by (cases s) auto
  with Cons.prems row obtain ws where ws: "enrichItems rows = Inr ws"
    and vs: "vs = enriched i p # ws"
    by (auto split: sum.splits)
  from Cons.IH [OF ws] row p vs show ?case by simp
qed

lemma foldl_plus_sum_list:
  "foldl (\<lambda>sum item. sum + f item) (a::int) xs = a + sum_list (map f xs)"
  by (induction xs arbitrary: a) simp_all

lemma cartResponse_totals:
  assumes "cartResponse code msg (c, items_with_product ps its b (c_id c)) = Inr resp"
  shows "v_totalItems (r_cart resp) = sum_list (map vi_quantity (v_items (r_cart resp))) \<and>
         v_totalPrice (r_cart resp) =
           toFixed2 (foldl js_plus 0 (map vi_subtotal (v_items (r_cart resp)))) \<and>
         v_id (r_cart resp) = Some (c_id c) \<and>
         map (\<lambda>v. \<lparr>ci_id = vi_id v, ci_cartId = vi_cartId v, ci_productId = vi_productId v,
                    ci_quantity = vi_quantity v\<rparr>) (v_items (r_cart resp)) = items_of its (c_id c) \<and>
         (\<forall>v \<in> set (v_items (r_cart resp)).
            \<exists>pr. lookup_product ps (vi_productId v) = Some pr \<and>
                 s_price (vi_product v) = Number (p_price pr) \<and>
                 vi_subtotal v = js_times (Number (p_price pr)) (of_int (vi_quantity v)))"
proof -
  let ?rows = "items_with_product ps its b (c_id c)"
  from assms obtain vs where vs: "enrichItems ?rows = Inr vs"
    and resp: "resp = \<lparr>r_status = code, r_message = msg,
                 r_cart = \<lparr>v_id = Some (c_id c), v_userId = Some (c_userId c), v_items = vs,
                   v_totalItems = foldl (\<lambda>sum item. sum + vi_quantity item) 0 vs,
                   v_totalPrice = toFixed2 (foldl (\<lambda>sum item. js_plus sum (vi_subtotal item)) 0 vs)\<rparr>\<rparr>"
    by (auto simp: cartResponse_def Let_def split: sum.splits)
  note l = enrichItems_Inr [OF vs]
  have len: "length vs = length (items_of its (c_id c))"
    using list_all2_lengthD [OF l] by (simp add: items_with_product_def)
  have nth: "\<And>k. k < length vs \<Longrightarrow>
      \<exists>p. map_option (select_product b) (lookup_product ps (ci_productId (items_of its (c_id c) ! k))) = Some p \<and>
          vs ! k = enriched (items_of its (c_id c) ! k) p"
    using list_all2_nthD2 [OF l] len by (simp add: items_with_product_def)
  have items: "map (\<lambda>v. \<lparr>ci_id = vi_id v, ci_cartId = vi_cartId v, ci_productId = vi_productId v,
                    ci_quantity = vi_quantity v\<rparr>) vs = items_of its (c_id c)"
  proof (rule nth_equalityI)
    show "length (map (\<lambda>v. \<lparr>ci_id = vi_id v, ci_cartId = vi_cartId v,
             ci_productId = vi_productId v, ci_quantity = vi_quantity v\<rparr>) vs) =
          length (items_of its (c_id c))"
      using len by simp
  next
    fix k
    assume "k < length (map (\<lambda>v. \<lparr>ci_id = vi_id v, ci_cartId = vi_cartId v,
             ci_productId = vi_productId v, ci_quantity = vi_quantity v\<rparr>) vs)"
    then have k: "k < length vs" by simp
    from nth [OF k] obtain p where "vs ! k = enriched (items_of its (c_id c) ! k) p" by blast
    with k show "map (\<lambda>v. \<lparr>ci_id = vi_id v, ci_cartId = vi_cartId v,
             ci_productId = vi_productId v, ci_quantity = vi_quantity v\<rparr>) vs ! k =
          items_of its (c_id c) ! k"
      by (simp add: enriched_def)
  qed
  have prices: "\<forall>v \<in> set vs.
            \<exists>pr. lookup_product ps (vi_productId v) = Some pr \<and>
                 s_price (vi_product v) = Number (p_price pr) \<and>
                 vi_subtotal v = js_times (Number (p_price pr)) (of_int (vi_quantity v))"
  proof
    fix v
    assume "v \<in> set vs"
    then obtain k where k: "k < length vs" and v: "v = vs ! k"
      by (auto simp: in_set_conv_nth)
    from nth [OF k] v obtain p where
      p: "map_option (select_product b)
            (lookup_product ps (ci_productId (items_of its (c_id c) ! k))) = Some p"
      and e: "v = enriched (items_of its (c_id c) ! k) p"
      by blast
    from p obtain pr where
      pr: "lookup_product ps (ci_productId (items_of its (c_id c) ! k)) = Some pr"
      and sp: "p = select_product b pr"
      by auto
    from pr sp e show "\<exists>pr. lookup_product ps (vi_productId v) = Some pr \<and>
                 s_price (vi_product v) = Number (p_price pr) \<and>
                 vi_subtotal v = js_times (Number (p_price pr)) (of_int (vi_quantity v))"
      by (simp add: enriched_def select_product_def)
  qed
  have fold: "foldl (\<lambda>sum item. js_plus sum (vi_subtotal item)) 0 vs =
              foldl js_plus 0 (map vi_subtotal vs)"
    by (simp add: foldl_map)
  from items prices fold show ?thesis
    by (simp add: resp foldl_plus_sum_list)
qed


lemma refetch_Inr:
  "fst (refetch code msg u d) = Inr resp \<Longrightarrow> view_built (snd (refetch code msg u d)) resp"
  unfolding view_built_def
  by (auto simp: refetch_def prisma_defs split: option.splits dest!: lookup_cart_Some)

lemma getCart_Inr: "fst (getCart r d) = Inr resp \<Longrightarrow> view_built (snd (getCart r d)) resp"
  unfolding view_built_def
  by (auto simp: getCart_def Let_def prisma_defs split: option.splits dest!: lookup_cart_Some)

lemma addToCart_Inr: "fst (addToCart r d) = Inr resp \<Longrightarrow> view_built (snd (addToCart r d)) resp"
  by (auto simp: addToCart_def Let_def prisma_defs split: option.splits if_splits
      intro!: refetch_Inr)

lemma updateCartItem_Inr:
  "fst (updateCartItem r d) = Inr resp \<Longrightarrow> view_built (snd (updateCartItem r d)) resp"
  by (auto simp: updateCartItem_def Let_def prisma_defs split: option.splits if_splits
      intro!: refetch_Inr)

lemma removeFromCart_Inr:
  "fst (removeFromCart r d) = Inr resp \<Longrightarrow> view_built (snd (removeFromCart r d)) resp"
  by (auto simp: removeFromCart_def Let_def prisma_defs split: option.splits if_splits
      intro!: refetch_Inr)

lemma toFixed2_0 [simp]: "toFixed2 0 = 0"
  by code_simp

lemma handle_products [simp]: "products (snd (handle cl d)) = products d"
  by (cases cl)
    (auto simp: getCart_def addToCart_def updateCartItem_def removeFromCart_def clearCart_def
      Let_def prisma_defs refetch_db split: option.splits)

lemma view_built_totals: "view_built d' resp \<Longrightarrow> totals_ok d' resp"
  unfolding view_built_def totals_ok_def
  using cartResponse_totals by blast

lemma clearCart_Inr:
  "fst (clearCart r d) = Inr resp \<Longrightarrow> totals_ok (snd (clearCart r d)) resp"
  unfolding totals_ok_def
  by (auto simp: clearCart_def Let_def prisma_defs split: option.splits if_splits
      dest: lookup_cart_Some)

lemma handle_totals: "fst (handle cl d) = Inr resp \<Longrightarrow> totals_ok (snd (handle cl d)) resp"
  by (cases cl)
    (auto intro: view_built_totals getCart_Inr addToCart_Inr updateCartItem_Inr
      removeFromCart_Inr clearCart_Inr)

text \<open>
  C5, as amended. No handler changes the product table, and whenever one of the five
  answers with a view, the view is derived from the tables as the call leaves them:
  its items are the items of one cart, \<open>totalItems\<close> is the sum of their quantities, each
  item carries the price of its product as a double and the subtotal
  \<open>Number(price) * quantity\<close> in double arithmetic, and \<open>totalPrice\<close> is the double sum
  of the subtotals passed once, as a whole, through \<open>parseFloat(sum.toFixed(2))\<close>: the
  hundredth nearest to the binary value of the sum. Nothing is rounded per item and
  nothing is cached. That rounding is not round-half-up of the decimal sum.
\<close>

theorem derived_totals:
  "products (snd (handle cl d)) = products d \<and>
   (case fst (handle cl d) of
      Inl e \<Rightarrow> True
    | Inr resp \<Rightarrow>
        v_totalItems (r_cart resp) = sum_list (map vi_quantity (v_items (r_cart resp))) \<and>
        v_totalPrice (r_cart resp) =
          toFixed2 (foldl js_plus 0 (map vi_subtotal (v_items (r_cart resp)))) \<and>
        (\<exists>c \<in> set (carts (snd (handle cl d))). v_id (r_cart resp) = Some (c_id c) \<and>
           map (\<lambda>v. \<lparr>ci_id = vi_id v, ci_cartId = vi_cartId v, ci_productId = vi_productId v,
                      ci_quantity = vi_quantity v\<rparr>) (v_items (r_cart resp)) =
             items_of (cartItems (snd (handle cl d))) (c_id c)) \<and>
        (\<forall>v \<in> set (v_items (r_cart resp)).
           \<exists>pr. lookup_product (products d) (vi_productId v) = Some pr \<and>
                s_price (vi_product v) = Number (p_price pr) \<and>
                vi_subtotal v = js_times (Number (p_price pr)) (of_int (vi_quantity v))))"
proof (cases "fst (handle cl d)")
  case (Inl e)
  then show ?thesis by simp
next
  case (Inr resp)
  from handle_totals [OF Inr] Inr show ?thesis
    by (simp add: totals_ok_def)
qed

text \<open>Alice's cart, three widgets at 10 and sixty gadgets at 4.\<close>

lemma doubles:
  "Number 10 = 10" "Number 4 = 4" "js_times 10 3 = 30" "js_times 4 60 = 240"
  "js_plus 0 30 = 30" "js_plus 30 240 = 270" "toFixed2 270 = 270"
  by code_simp+

theorem derived_totals_witness:
  "case fst (handle (GetCart (request 1 None 1 None)) shop2) of
      Inl e \<Rightarrow> False
    | Inr resp \<Rightarrow>
        map vi_quantity (v_items (r_cart resp)) = [3, 60] \<and>
        map vi_subtotal (v_items (r_cart resp)) = [30, 240] \<and>
        v_totalItems (r_cart resp) = 63 \<and>
        v_totalPrice (r_cart resp) = 270"
  using derived_totals [of "GetCart (request 1 None 1 None)" shop2]
  by (simp add: shop2_def request_def getCart_def prisma_defs cartResponse_def enriched_def
      items_with_product_def select_product_def lookup_cart_def lookup_product_def items_of_def
      widget_def gadget_def doubles)

text \<open>One trinket at 1.005: the double nearest to 1.005 lies below it, so the total is 1,
  where half-up rounding of the decimal sum gives 1.01.\<close>

lemma trinket_doubles:
  "Number (201 / 200) = 1131529406376837 / 1125899906842624"
  "js_times (1131529406376837 / 1125899906842624) 1 = 1131529406376837 / 1125899906842624"
  "js_plus 0 (1131529406376837 / 1125899906842624) = 1131529406376837 / 1125899906842624"
  "toFixed2 (1131529406376837 / 1125899906842624) = 1"
  by code_simp+

theorem half_cent_rounds_down:
  "(case fst (cartRouter tokens GET_cart
       \<lparr>h_authorization = Some ''Bearer alice-token'', h_productId = None,
        h_body_productId = JUndefined, h_body_quantity = JUndefined\<rparr> stall) of
      Inl e \<Rightarrow> False
    | Inr resp \<Rightarrow>
        map vi_quantity (v_items (r_cart resp)) = [1] \<and>
        v_totalPrice (r_cart resp) = 1) \<and>
   p_price trinket = 1005 / 1000 \<and>
   Number (p_price trinket) < 1005 / 1000 \<and>
   spec_round2 (1005 / 1000 * 1) = 101 / 100"
  by (simp add: cartRouter_def authenticate_def tokens_def to_req_def stall_def alice_def
      getCart_def prisma_defs cartResponse_def enriched_def
      items_with_product_def select_product_def lookup_cart_def lookup_product_def items_of_def
      trinket_def trinket_doubles spec_round2_def)

subsection \<open>The quantity validators at the routes\<close>







subsection \<open>Products that are missing or inactive\<close>

















end
